theory Spec2Isabelle
  imports Main
begin

section \<open>The schema model consumed by the Python client generator\<close>

text \<open>
  The generator of \<^verbatim>\<open>stone/target/python_client.py\<close> reads an interface model built
  elsewhere. Only the attributes the generator reads are kept. A user-defined type
  carries the name of its namespace (the generator only ever reads
  \<^verbatim>\<open>data_type.namespace.name\<close>), its own fields and the full field list
  \<^verbatim>\<open>all_fields\<close>. A field's default is present exactly when \<^verbatim>\<open>has_default\<close> is set.
\<close>

datatype literal = LNone | LBool bool | LInt int | LStr string | LList "literal list"

datatype data_type =
    Void
  | Primitive string
  | Nullable data_type
  | ListOf data_type
  | Struct udt
  | Union udt
and udt =
    UserDefined (udt_name: string) (udt_namespace: string) (udt_doc: "string option")
      (udt_fields: "field list") (udt_all_fields: "field list")
and field =
    Field (field_name: string) (field_data_type: data_type) (field_doc: "string option")
      (field_default: "val option")
and val =
    TagRef (union_data_type: data_type) (tag_name: string)
  | Literal literal

datatype deprecation_info = DeprecationInfo (deprecated_by: "string option")

record route =
  route_name :: string
  arg_data_type :: data_type
  result_data_type :: data_type
  error_data_type :: data_type
  attrs :: "string \<rightharpoonup> literal"
  route_doc :: "string option"
  deprecated :: "deprecation_info option"

record namespace =
  ns_name :: string
  ns_data_types :: "data_type list"
  ns_routes :: "route list"

record args =
  args_module_name :: string
  args_class_name :: string

subsection \<open>Type classification queries\<close>

definition is_void_type :: "data_type \<Rightarrow> bool" where
  "is_void_type t = (case t of Void \<Rightarrow> True | _ \<Rightarrow> False)"

definition is_struct_type :: "data_type \<Rightarrow> bool" where
  "is_struct_type t = (case t of Struct _ \<Rightarrow> True | _ \<Rightarrow> False)"

definition is_union_type :: "data_type \<Rightarrow> bool" where
  "is_union_type t = (case t of Union _ \<Rightarrow> True | _ \<Rightarrow> False)"

definition is_user_defined_type :: "data_type \<Rightarrow> bool" where
  "is_user_defined_type t = (case t of Struct _ \<Rightarrow> True | Union _ \<Rightarrow> True | _ \<Rightarrow> False)"

definition is_nullable_type :: "data_type \<Rightarrow> bool" where
  "is_nullable_type t = (case t of Nullable _ \<Rightarrow> True | _ \<Rightarrow> False)"

definition is_tag_ref :: "val \<Rightarrow> bool" where
  "is_tag_ref v = (case v of TagRef _ _ \<Rightarrow> True | _ \<Rightarrow> False)"

definition has_default :: "field \<Rightarrow> bool" where
  "has_default f = (field_default f \<noteq> None)"

subsection \<open>Failures\<close>

text \<open>
  Every \<^verbatim>\<open>raise\<close> and failed \<^verbatim>\<open>assert\<close> of the source is a value. Reading an
  attribute an object does not have (\<^verbatim>\<open>.fields\<close> of a primitive type, \<^verbatim>\<open>.name\<close> of
  \<^verbatim>\<open>None\<close>) is \<open>AttributeError\<close>; unpacking the one-element result of
  \<^verbatim>\<open>rsplit\<close> into two names is \<open>ValueError\<close>.
\<close>

datatype error =
    UnknownDocRefTag string
  | UnhandledRequestType data_type
  | DownloadToFileAssertion
  | AttributeError string
  | ValueError string

definition bind :: "error + 'a \<Rightarrow> ('a \<Rightarrow> error + 'b) \<Rightarrow> error + 'b" where
  "bind m f = (case m of Inl e \<Rightarrow> Inl e | Inr x \<Rightarrow> f x)"

fun map_result :: "('a \<Rightarrow> error + 'b) \<Rightarrow> 'a list \<Rightarrow> error + 'b list" where
  "map_result f [] = Inr []"
| "map_result f (x # xs) =
     bind (f x) (\<lambda>y. bind (map_result f xs) (\<lambda>ys. Inr (y # ys)))"

fun concat_result :: "('a \<Rightarrow> error + 'b list) \<Rightarrow> 'a list \<Rightarrow> error + 'b list" where
  "concat_result f [] = Inr []"
| "concat_result f (x # xs) =
     bind (f x) (\<lambda>ys. bind (concat_result f xs) (\<lambda>zs. Inr (ys @ zs)))"

subsection \<open>Python truthiness and string conversion\<close>

definition truthy :: "string option \<Rightarrow> bool" where
  "truthy s = (case s of None \<Rightarrow> False | Some t \<Rightarrow> t \<noteq> [])"

definition truthy_list :: "'a list option \<Rightarrow> bool" where
  "truthy_list xs = (case xs of None \<Rightarrow> False | Some ys \<Rightarrow> ys \<noteq> [])"

definition py_str :: "string option \<Rightarrow> string" where
  "py_str s = (case s of None \<Rightarrow> ''None'' | Some t \<Rightarrow> t)"

definition sq :: string where
  "sq = [CHR 0x27]"

definition bq :: string where
  "bq = [CHR 0x60]"

definition triple_quote :: string where
  "triple_quote = [CHR 0x22, CHR 0x22, CHR 0x22]"

definition nl :: string where
  "nl = [CHR 0x0A]"

text \<open>
  \<^verbatim>\<open>val.rsplit(' ', 1)\<close> followed by unpacking into two names: the payload is cut
  at its last space; a payload without a space yields one element and the unpacking
  fails.
\<close>

definition rsplit_space :: "string \<Rightarrow> error + (string \<times> string)" where
  "rsplit_space s =
     (if CHR '' '' \<in> set s
      then Inr (rev (tl (dropWhile (\<lambda>c. c \<noteq> CHR '' '') (rev s))),
                rev (takeWhile (\<lambda>c. c \<noteq> CHR '' '') (rev s)))
      else Inl (ValueError ''need more than 1 value to unpack''))"

text \<open>\<^verbatim>\<open>str.capitalize\<close> on the two payloads it is applied to.\<close>

definition capitalize :: "string \<Rightarrow> string" where
  "capitalize s =
     (if s = ''true'' then ''True'' else if s = ''false'' then ''False'' else s)"

subsection \<open>Collaborators outside this module\<close>

text \<open>
  The name formatters of \<^verbatim>\<open>stone.target.python_helpers\<close>,
  \<^verbatim>\<open>class_name_for_data_type\<close> of \<^verbatim>\<open>stone.target.python_types\<close> and
  \<^verbatim>\<open>process_doc\<close> of the generator base class are not part of this module; they are
  parameters of every function that calls them. \<^verbatim>\<open>process_doc\<close> receives the
  handler and the doc text (possibly absent) and may fail when the handler does.
\<close>

record helpers =
  fmt_class :: "string \<Rightarrow> string"
  fmt_func :: "string \<Rightarrow> string"
  fmt_obj :: "val \<Rightarrow> string"
  fmt_type :: "data_type \<Rightarrow> string"
  fmt_var :: "string \<Rightarrow> string"
  class_name_for_data_type :: "data_type \<Rightarrow> string"
  process_doc :: "(string \<Rightarrow> string \<Rightarrow> error + string) \<Rightarrow> string option \<Rightarrow> error + string option"

subsection \<open>Emitted output\<close>

text \<open>
  The generator writes through the emission primitives of its base class. The output is
  the sequence of those calls; each carries the indentation depth (the number of open
  \<^verbatim>\<open>with self.indent()\<close> scopes) at which it was made. \<open>Line n []\<close> is
  \<^verbatim>\<open>self.emit()\<close>. \<open>MultilineList\<close> records the items, \<^verbatim>\<open>before\<close>,
  \<^verbatim>\<open>after\<close>, \<^verbatim>\<open>delim\<close> and \<^verbatim>\<open>compact\<close> of
  \<^verbatim>\<open>generate_multiline_list\<close>; \<open>WrappedText\<close> the text and
  \<^verbatim>\<open>subsequent_prefix\<close> of \<^verbatim>\<open>emit_wrapped_text\<close>.
\<close>

datatype emitted =
    Raw string
  | Line nat string
  | WrappedText nat string string
  | MultilineList nat "string list" string string "string \<times> string" bool

section \<open>The generator\<close>

subsection \<open>Inline doc references\<close>

definition docf :: "helpers \<Rightarrow> string \<Rightarrow> string \<Rightarrow> error + string" where
  "docf h tag v =
     (if tag = ''type'' then Inr ('':class:'' @ bq @ v @ bq)
      else if tag = ''route'' then Inr ('':meth:'' @ bq @ fmt_func h v @ bq)
      else if tag = ''link'' then
        bind (rsplit_space v) (\<lambda>(anchor, link).
          Inr (bq @ anchor @ '' <'' @ link @ ''>'' @ bq @ ''_''))
      else if tag = ''val'' then
        (if v = ''null'' then Inr ''None''
         else if v = ''true'' \<or> v = ''false'' then Inr (bq @ bq @ capitalize v @ bq @ bq)
         else Inr v)
      else if tag = ''field'' then Inr (bq @ bq @ v @ bq @ bq)
      else Inl (UnknownDocRefTag tag))"

subsection \<open>Module constants\<close>

definition base :: string where
  "base = ''# Auto-generated by Stone, do not modify.'' @ nl @ nl @
          ''from abc import ABCMeta, abstractmethod'' @ nl"

definition DOCSTRING_CLOSE_RESPONSE :: string where
  "DOCSTRING_CLOSE_RESPONSE =
     ''If you do not consume the entire response body, then you must call close on the'' @ nl @
     ''response object, otherwise you will max out your available connections. We'' @ nl @
     ''recommend using the '' @ bq @ ''contextlib.closing'' @ nl @
     ''<https://docs.python.org/2/library/contextlib.html#contextlib.closing>'' @ bq @ ''_'' @ nl @
     ''context manager to ensure this.''"

subsection \<open>Types in docstrings and default values\<close>

definition format_type_in_doc :: "helpers \<Rightarrow> namespace \<Rightarrow> data_type \<Rightarrow> string" where
  "format_type_in_doc h namespace t =
     (if is_void_type t then ''None''
      else if is_user_defined_type t then
        '':class:'' @ bq @ ''dropbox.'' @ ns_name namespace @ ''.'' @ fmt_type h t @ bq
      else fmt_type h t)"

text \<open>
  \<^verbatim>\<open>_generate_python_value(namespace, value)\<close>. The namespace argument is the name of
  a namespace or \<^verbatim>\<open>None\<close>; reading \<^verbatim>\<open>.name\<close> of \<^verbatim>\<open>None\<close> fails.
\<close>

definition generate_python_value :: "helpers \<Rightarrow> string option \<Rightarrow> val \<Rightarrow> error + string" where
  "generate_python_value h namespace v =
     (if is_tag_ref v then
        (case namespace of
           None \<Rightarrow> Inl (AttributeError ''name'')
         | Some n \<Rightarrow>
             Inr (n @ ''.'' @ class_name_for_data_type h (union_data_type v) @ ''.'' @
                  fmt_var h (tag_name v)))
      else Inr (fmt_obj h v))"

subsection \<open>Method declaration\<close>

text \<open>
  The body of the loop over \<^verbatim>\<open>arg_data_type.all_fields\<close> in
  \<^verbatim>\<open>_generate_route_method_decl\<close>: the parameter text of one field. The branch on
  \<^verbatim>\<open>field.has_default\<close> and the read of \<^verbatim>\<open>field.default\<close> are one case
  distinction on the optional default. \<open>default_namespace\<close> is the namespace handed
  to the value renderer: that of the field's type when it is user-defined, else
  \<^verbatim>\<open>None\<close>.
\<close>

definition default_namespace :: "data_type \<Rightarrow> string option" where
  "default_namespace t =
     (case t of
        Struct u \<Rightarrow> Some (udt_namespace u)
      | Union u \<Rightarrow> Some (udt_namespace u)
      | _ \<Rightarrow> None)"

definition route_method_decl_field :: "helpers \<Rightarrow> field \<Rightarrow> error + string" where
  "route_method_decl_field h f =
     (if is_nullable_type (field_data_type f) then Inr (field_name f @ ''=None'')
      else
        (case field_default f of
           Some d \<Rightarrow>
             (let ns = default_namespace (field_data_type f)
              in bind (generate_python_value h ns d) (\<lambda>v. Inr (field_name f @ ''='' @ v)))
         | None \<Rightarrow> Inr (field_name f)))"

definition generate_route_method_decl ::
  "helpers \<Rightarrow> nat \<Rightarrow> namespace \<Rightarrow> route \<Rightarrow> data_type \<Rightarrow> bool \<Rightarrow> string option \<Rightarrow>
   string list option \<Rightarrow> error + emitted list" where
  "generate_route_method_decl h ind namespace route arg_dt request_binary_body
       method_name_suffix extra_args =
     (let method_name = fmt_func h (route_name route);
          namespace_name = fmt_func h (ns_name namespace);
          method_name = (case method_name_suffix of None \<Rightarrow> method_name
                         | Some s \<Rightarrow> method_name @ s);
          args = [''self''];
          args = (case extra_args of None \<Rightarrow> args | Some xs \<Rightarrow> args @ xs);
          args = (if request_binary_body then args @ [''f''] else args)
      in bind (case arg_dt of
                 Struct u \<Rightarrow> map_result (route_method_decl_field h) (udt_all_fields u)
               | Union u \<Rightarrow> Inr [''arg'']
               | Void \<Rightarrow> Inr []
               | _ \<Rightarrow> Inl (UnhandledRequestType arg_dt))
           (\<lambda>params.
              Inr [MultilineList ind (args @ params)
                     (''def '' @ namespace_name @ ''_'' @ method_name) '':'' (''('', '')'') True]))"

subsection \<open>Deprecation warning\<close>

text \<open>\<open>deprecated_by\<close> is the name of the replacement route (\<^verbatim>\<open>route.deprecated.by.name\<close>).\<close>

definition maybe_generate_deprecation_warning :: "nat \<Rightarrow> route \<Rightarrow> emitted list" where
  "maybe_generate_deprecation_warning ind route =
     (case deprecated route of
        None \<Rightarrow> []
      | Some d \<Rightarrow>
          (let msg = route_name route @ '' is deprecated.'';
               msg = (case deprecated_by d of None \<Rightarrow> msg
                      | Some n \<Rightarrow> msg @ '' Use '' @ n @ ''.'')
           in [MultilineList ind [sq @ msg @ sq, ''DeprecationWarning'']
                 ''warnings.warn'' [] (''('', '')'') False]))"

subsection \<open>Docstring\<close>

definition dt_fields :: "data_type \<Rightarrow> error + field list" where
  "dt_fields t =
     (case t of
        Struct u \<Rightarrow> Inr (udt_fields u)
      | Union u \<Rightarrow> Inr (udt_fields u)
      | _ \<Rightarrow> Inl (AttributeError ''fields''))"

text \<open>The loop over \<^verbatim>\<open>extra_request_args\<close>.\<close>

definition docstring_extra_arg :: "nat \<Rightarrow> string \<times> string option \<times> string \<Rightarrow> emitted" where
  "docstring_extra_arg ind e =
     (case e of (name, data_type_name, doc) \<Rightarrow>
        (if truthy data_type_name
         then WrappedText ind ('':param '' @ py_str data_type_name @ '' '' @ name @ '': '' @ doc)
                ''    ''
         else WrappedText ind ('':param '' @ name @ '': '' @ doc) ''    ''))"

text \<open>The body of the loop over the fields of a struct argument.\<close>

definition docstring_field :: "helpers \<Rightarrow> nat \<Rightarrow> namespace \<Rightarrow> field \<Rightarrow> error + emitted list" where
  "docstring_field h ind namespace f =
     (if truthy (field_doc f) then
        (if is_user_defined_type (field_data_type f) then
           bind (process_doc h (docf h) (field_doc f)) (\<lambda>d.
             Inr [WrappedText ind ('':param '' @ field_name f @ '': '' @ py_str d) ''    '',
                  Line ind ('':type '' @ field_name f @ '': '' @
                            format_type_in_doc h namespace (field_data_type f))])
         else
           bind (process_doc h (docf h) (field_doc f)) (\<lambda>d.
             Inr [WrappedText ind
                    ('':param '' @ format_type_in_doc h namespace (field_data_type f) @ '' '' @
                     field_name f @ '': '' @ py_str d) ''    '']))
      else
        Inr [WrappedText ind
               ('':type '' @ field_name f @ '': '' @
                format_type_in_doc h namespace (field_data_type f)) []])"

text \<open>The description of a union argument.\<close>

definition docstring_union :: "helpers \<Rightarrow> nat \<Rightarrow> namespace \<Rightarrow> data_type \<Rightarrow> udt \<Rightarrow> error + emitted list" where
  "docstring_union h ind namespace arg_dt u =
     bind (if truthy (udt_doc u) then
             bind (process_doc h (docf h) (udt_doc u)) (\<lambda>d.
               Inr [WrappedText ind ('':param arg: '' @ py_str d) ''    ''])
           else Inr [])
       (\<lambda>p. Inr (p @ [Line ind ('':type arg: '' @ format_type_in_doc h namespace arg_dt)]))"

text \<open>The description of all input parameters.\<close>

definition docstring_args ::
  "helpers \<Rightarrow> nat \<Rightarrow> namespace \<Rightarrow> data_type \<Rightarrow> field list \<Rightarrow> string option \<Rightarrow>
   (string \<times> string option \<times> string) list option \<Rightarrow> error + emitted list" where
  "docstring_args h ind namespace arg_dt field_list overview extra_request_args =
     (if truthy_list extra_request_args \<or> field_list \<noteq> [] then
        bind (case arg_dt of
                Struct u \<Rightarrow> concat_result (docstring_field h ind namespace) field_list
              | Union u \<Rightarrow> docstring_union h ind namespace arg_dt u
              | _ \<Rightarrow> Inr [])
          (\<lambda>fs. Inr ((if truthy overview then [Line ind []] else []) @
                     (case extra_request_args of
                        None \<Rightarrow> []
                      | Some es \<Rightarrow> map (docstring_extra_arg ind) es) @ fs))
      else Inr [])"

text \<open>The return type, a pair when an extra return value is declared.\<close>

definition docstring_rtype ::
  "helpers \<Rightarrow> nat \<Rightarrow> namespace \<Rightarrow> data_type \<Rightarrow> string option \<Rightarrow> emitted list" where
  "docstring_rtype h ind namespace result_dt extra_return_arg =
     (if truthy extra_return_arg then
        [MultilineList ind
           [if is_void_type result_dt then ''None''
            else format_type_in_doc h namespace result_dt,
            py_str extra_return_arg]
           '':rtype: '' [] (''('', '')'') True]
      else if is_void_type result_dt then [Line ind '':rtype: None'']
      else [Line ind ('':rtype: '' @ format_type_in_doc h namespace result_dt)])"

text \<open>The error section.\<close>

definition docstring_raises ::
  "helpers \<Rightarrow> nat \<Rightarrow> namespace \<Rightarrow> data_type \<Rightarrow> error + emitted list" where
  "docstring_raises h ind namespace error_dt =
     (if is_void_type error_dt then Inr []
      else bind (dt_fields error_dt) (\<lambda>efs.
        Inr (if efs \<noteq> [] then
               [Line ind ('':raises: :class:'' @ bq @ ''dropbox.exceptions.ApiError'' @ bq),
                Line ind [],
                Line ind ''If this raises, ApiError.reason is of type:'',
                Line (ind + 1) (format_type_in_doc h namespace error_dt)]
             else [])))"

definition generate_docstring_for_func ::
  "helpers \<Rightarrow> nat \<Rightarrow> namespace \<Rightarrow> data_type \<Rightarrow> data_type \<Rightarrow> data_type \<Rightarrow> string option \<Rightarrow>
   (string \<times> string option \<times> string) list option \<Rightarrow> string option \<Rightarrow> string option \<Rightarrow>
   error + emitted list" where
  "generate_docstring_for_func h ind namespace arg_dt result_dt error_dt overview
       extra_request_args extra_return_arg footer =
     bind (if is_void_type arg_dt then Inr [] else dt_fields arg_dt) (\<lambda>fields.
       if fields = [] \<and> \<not> truthy overview then Inr []
       else
         bind (docstring_args h ind namespace arg_dt fields overview extra_request_args)
           (\<lambda>args.
         bind (docstring_raises h ind namespace error_dt) (\<lambda>raises.
           Inr ([Line ind triple_quote] @
                (if truthy overview then [WrappedText ind (py_str overview) []] else []) @
                args @
                (if truthy overview \<and> \<not> (truthy_list extra_request_args \<or> fields \<noteq> [])
                 then [Line ind []] else []) @
                docstring_rtype h ind namespace result_dt extra_return_arg @
                raises @
                (if truthy footer then [Line ind [], WrappedText ind (py_str footer) []]
                 else []) @
                [Line ind triple_quote]))))"

subsection \<open>Route methods\<close>

text \<open>
  The statement that instantiates the request argument (the \<^verbatim>\<open>if\<close> chain on the
  argument type in the body of \<^verbatim>\<open>_generate_route_helper\<close>).
\<close>

definition route_helper_arg :: "helpers \<Rightarrow> nat \<Rightarrow> data_type \<Rightarrow> error + emitted list" where
  "route_helper_arg h ind arg_dt =
     (case arg_dt of
        Void \<Rightarrow> Inr [Line ind ''arg = None'']
      | Struct u \<Rightarrow>
          Inr [MultilineList ind (map field_name (udt_all_fields u))
                 (''arg = '' @ udt_namespace u @ ''.'' @ fmt_class h (udt_name u))
                 [] (''('', '')'') True]
      | Union u \<Rightarrow> Inr []
      | _ \<Rightarrow> Inl (UnhandledRequestType arg_dt))"

text \<open>The request call.\<close>

definition route_helper_request :: "helpers \<Rightarrow> nat \<Rightarrow> namespace \<Rightarrow> route \<Rightarrow> bool \<Rightarrow> emitted" where
  "route_helper_request h ind namespace route request_binary_body =
     MultilineList ind
       [ns_name namespace @ ''.'' @ fmt_var h (route_name route),
        sq @ ns_name namespace @ sq,
        ''arg'',
        if request_binary_body then ''f'' else ''None'']
       ''r = self.request'' [] (''('', '')'') False"

text \<open>The statements after the request call.\<close>

definition route_helper_return :: "nat \<Rightarrow> data_type \<Rightarrow> bool \<Rightarrow> emitted list" where
  "route_helper_return ind result_dt download_to_file =
     (if download_to_file then
        [Line ind ''self._save_body_to_file(download_path, r[1])'',
         if is_void_type result_dt then Line ind ''return None'' else Line ind ''return r[0]'']
      else
        [if is_void_type result_dt then Line ind ''return None'' else Line ind ''return r''])"

definition generate_route_helper ::
  "helpers \<Rightarrow> nat \<Rightarrow> namespace \<Rightarrow> route \<Rightarrow> bool \<Rightarrow> error + emitted list" where
  "generate_route_helper h ind namespace route download_to_file =
     (let arg_dt = arg_data_type route;
          result_dt = result_data_type route;
          request_binary_body = (attrs route ''style'' = Some (LStr ''upload''));
          response_binary_body = (attrs route ''style'' = Some (LStr ''download''))
      in
      bind (if download_to_file then
              (if response_binary_body then
                 generate_route_method_decl h ind namespace route arg_dt request_binary_body
                   (Some ''_to_file'') (Some [''download_path''])
               else Inl DownloadToFileAssertion)
            else
              generate_route_method_decl h ind namespace route arg_dt request_binary_body
                None None)
        (\<lambda>decl.
      let extra_request_args =
            (if request_binary_body then
               Some [(''f'', None, ''A string or file-like obj of data.'')]
             else if download_to_file then
               Some [(''download_path'', Some ''str'', ''Path on local machine to save file.'')]
             else None);
          extra_return_arg =
            (if response_binary_body
             then Some ('':class:'' @ bq @ ''requests.models.Response'' @ bq) else None);
          footer =
            (if response_binary_body \<and> \<not> download_to_file
             then Some DOCSTRING_CLOSE_RESPONSE else None)
      in
      bind (process_doc h (docf h) (route_doc route)) (\<lambda>overview.
      bind (generate_docstring_for_func h (ind + 1) namespace arg_dt result_dt
              (error_data_type route) overview extra_request_args extra_return_arg footer)
        (\<lambda>docstring.
      bind (route_helper_arg h (ind + 1) arg_dt) (\<lambda>arg_stmt.
        Inr (decl @ docstring @
             maybe_generate_deprecation_warning (ind + 1) route @
             arg_stmt @
             [route_helper_request h (ind + 1) namespace route request_binary_body] @
             route_helper_return (ind + 1) result_dt download_to_file @
             [Line ind []]))))))"

definition generate_route :: "helpers \<Rightarrow> nat \<Rightarrow> namespace \<Rightarrow> route \<Rightarrow> error + emitted list" where
  "generate_route h ind namespace route =
     bind (generate_route_helper h ind namespace route False) (\<lambda>plain.
       if attrs route ''style'' = Some (LStr ''download'') then
         bind (generate_route_helper h ind namespace route True) (\<lambda>to_file.
           Inr (plain @ to_file))
       else Inr plain)"

definition generate_route_methods_ns :: "helpers \<Rightarrow> nat \<Rightarrow> namespace \<Rightarrow> error + emitted list" where
  "generate_route_methods_ns h ind namespace =
     (if ns_routes namespace \<noteq> [] then
        bind (concat_result (generate_route h ind namespace) (ns_routes namespace)) (\<lambda>ms.
          Inr ([Line ind ''# ------------------------------------------'',
                Line ind (''# Routes in '' @ ns_name namespace @ '' namespace''),
                Line ind []] @ ms))
      else Inr [])"

definition generate_route_methods :: "helpers \<Rightarrow> nat \<Rightarrow> namespace list \<Rightarrow> error + emitted list" where
  "generate_route_methods h ind namespaces =
     concat_result (generate_route_methods_ns h ind) namespaces"

definition generate_imports :: "nat \<Rightarrow> namespace list \<Rightarrow> emitted list" where
  "generate_imports ind namespaces =
     (let ns_names_to_import =
            map ns_name (filter (\<lambda>ns. ns_data_types ns \<noteq> []) namespaces)
      in [Line ind ''from . import (''] @
         map (\<lambda>ns. Line (ind + 1) (ns @ '','')) ns_names_to_import @
         [Line ind '')''])"

subsection \<open>The module\<close>

text \<open>
  \<^verbatim>\<open>generate\<close> returns the relative path of the module and what is written to it;
  a failure anywhere leaves no module. The two nested loops that look for a deprecated
  route stop at the first one found, so the import is emitted at most once.
\<close>

definition found_deprecated :: "namespace list \<Rightarrow> bool" where
  "found_deprecated namespaces =
     list_ex (\<lambda>namespace. list_ex (\<lambda>route. deprecated route \<noteq> None) (ns_routes namespace))
       namespaces"

definition generate :: "helpers \<Rightarrow> args \<Rightarrow> namespace list \<Rightarrow> error + (string \<times> emitted list)" where
  "generate h a namespaces =
     bind (generate_route_methods h 1 namespaces) (\<lambda>methods.
       Inr (args_module_name a @ ''.py'',
            [Raw base] @
            (if found_deprecated namespaces then [Line 0 ''import warnings''] else []) @
            [Line 0 []] @
            generate_imports 0 namespaces @
            [Line 0 [], Line 0 [],
             Line 0 (''class '' @ args_class_name a @ ''(object):''),
             Line 1 ''__metaclass__ = ABCMeta'',
             Line 1 [],
             Line 1 ''@abstractmethod'',
             Line 1 ''def request(self, route, namespace, arg, arg_binary=None):'',
             Line 2 ''pass'',
             Line 1 []] @
            methods))"

section \<open>Worked examples\<close>

text \<open>
  An instance of the collaborators for the worked examples: identifiers that are already
  in the target's spelling are left as they are, and doc text is returned unchanged.
\<close>

definition sample_helpers :: helpers where
  "sample_helpers =
     \<lparr>fmt_class = (\<lambda>s. s),
      fmt_func = (\<lambda>s. s),
      fmt_obj = (\<lambda>v. case v of
                   Literal (LBool b) \<Rightarrow> (if b then ''True'' else ''False'')
                 | Literal (LStr s) \<Rightarrow> sq @ s @ sq
                 | _ \<Rightarrow> ''None''),
      fmt_type = (\<lambda>t. case t of
                    Void \<Rightarrow> ''Void''
                  | Primitive n \<Rightarrow> n
                  | Nullable t \<Rightarrow> ''Nullable''
                  | ListOf t \<Rightarrow> ''list''
                  | Struct u \<Rightarrow> udt_name u
                  | Union u \<Rightarrow> udt_name u),
      fmt_var = (\<lambda>s. s),
      class_name_for_data_type = (\<lambda>t. case t of
                    Struct u \<Rightarrow> udt_name u
                  | Union u \<Rightarrow> udt_name u
                  | _ \<Rightarrow> []),
      process_doc = (\<lambda>handler doc. Inr doc)\<rparr>"

subsection \<open>A route with a struct argument\<close>

text \<open>
  The route \<open>get_metadata\<close> of the namespace \<open>files\<close>, whose argument has a required
  string field and a nullable boolean field, and an argument type with a field that is
  nullable and has a default as well.
\<close>

definition files_ns :: namespace where
  "files_ns = \<lparr>ns_name = ''files'', ns_data_types = [], ns_routes = []\<rparr>"

definition get_metadata_arg :: udt where
  "get_metadata_arg =
     UserDefined ''GetMetadataArg'' ''files'' None
       [Field ''path'' (Primitive ''String'') None None,
        Field ''include_media_info'' (Nullable (Primitive ''Boolean'')) None None]
       [Field ''path'' (Primitive ''String'') None None,
        Field ''include_media_info'' (Nullable (Primitive ''Boolean'')) None None]"

definition get_metadata :: route where
  "get_metadata =
     \<lparr>route_name = ''get_metadata'', arg_data_type = Struct get_metadata_arg,
      result_data_type = Primitive ''Metadata'', error_data_type = Void,
      attrs = Map.empty, route_doc = Some [], deprecated = None\<rparr>"

definition null_default_arg :: udt where
  "null_default_arg =
     UserDefined ''ListArg'' ''files'' None
       [Field ''path'' (Primitive ''String'') None None,
        Field ''cursor'' (Nullable (Primitive ''String'')) None (Some (Literal (LStr ''start'')))]
       [Field ''path'' (Primitive ''String'') None None,
        Field ''cursor'' (Nullable (Primitive ''String'')) None (Some (Literal (LStr ''start'')))]"

subsection \<open>A union with a tag used as a default, and a route with a primitive argument\<close>

definition status_union :: udt where
  "status_union =
     UserDefined ''Status'' ''files'' None
       [Field ''active'' Void None None, Field ''deleted'' Void None None]
       [Field ''active'' Void None None, Field ''deleted'' Void None None]"

definition bad_route :: route where
  "bad_route =
     \<lparr>route_name = ''echo'', arg_data_type = Primitive ''String'',
      result_data_type = Void, error_data_type = Void,
      attrs = Map.empty, route_doc = Some [], deprecated = None\<rparr>"

subsection \<open>A download route, an upload route and a deprecated route\<close>

text \<open>
  Three routes of the namespace \<open>files\<close> with the methods generated for them at
  indentation depth 1, and the module generated for a namespace that holds the deprecated
  route alone.
\<close>

definition download_route :: route where
  "download_route =
     \<lparr>route_name = ''download'', arg_data_type = Struct get_metadata_arg,
      result_data_type = Primitive ''Metadata'', error_data_type = Void,
      attrs = [''style'' \<mapsto> LStr ''download''], route_doc = Some ''Download a file.'',
      deprecated = None\<rparr>"


definition download_file_method :: "emitted list" where
  "download_file_method =
     [MultilineList 1 [''self'', ''download_path'', ''path'', ''include_media_info=None'']
        ''def files_download_to_file'' '':'' (''('', '')'') True,
      Line 2 triple_quote,
      WrappedText 2 ''Download a file.'' [],
      Line 2 [],
      WrappedText 2 '':param str download_path: Path on local machine to save file.'' ''    '',
      WrappedText 2 '':type path: String'' [],
      WrappedText 2 '':type include_media_info: Nullable'' [],
      MultilineList 2 [''Metadata'', '':class:'' @ bq @ ''requests.models.Response'' @ bq]
        '':rtype: '' [] (''('', '')'') True,
      Line 2 triple_quote,
      MultilineList 2 [''path'', ''include_media_info'']
        ''arg = files.GetMetadataArg'' [] (''('', '')'') True,
      MultilineList 2 [''files.download'', sq @ ''files'' @ sq, ''arg'', ''None'']
        ''r = self.request'' [] (''('', '')'') False,
      Line 2 ''self._save_body_to_file(download_path, r[1])'',
      Line 2 ''return r[0]'',
      Line 1 []]"

definition upload_route :: route where
  "upload_route =
     \<lparr>route_name = ''upload'', arg_data_type = Struct get_metadata_arg,
      result_data_type = Void, error_data_type = Void,
      attrs = [''style'' \<mapsto> LStr ''upload''], route_doc = Some [], deprecated = None\<rparr>"

definition upload_method :: "emitted list" where
  "upload_method =
     [MultilineList 1 [''self'', ''f'', ''path'', ''include_media_info=None'']
        ''def files_upload'' '':'' (''('', '')'') True,
      Line 2 triple_quote,
      WrappedText 2 '':param f: A string or file-like obj of data.'' ''    '',
      WrappedText 2 '':type path: String'' [],
      WrappedText 2 '':type include_media_info: Nullable'' [],
      Line 2 '':rtype: None'',
      Line 2 triple_quote,
      MultilineList 2 [''path'', ''include_media_info'']
        ''arg = files.GetMetadataArg'' [] (''('', '')'') True,
      MultilineList 2 [''files.upload'', sq @ ''files'' @ sq, ''arg'', ''f'']
        ''r = self.request'' [] (''('', '')'') False,
      Line 2 ''return None'',
      Line 1 []]"

definition old_route :: route where
  "old_route =
     \<lparr>route_name = ''get_metadata_v1'', arg_data_type = Void,
      result_data_type = Void, error_data_type = Void,
      attrs = Map.empty, route_doc = Some [],
      deprecated = Some (DeprecationInfo (Some ''get_metadata''))\<rparr>"

definition old_method :: "emitted list" where
  "old_method =
     [MultilineList 1 [''self''] ''def files_get_metadata_v1'' '':'' (''('', '')'') True,
      MultilineList 2
        [sq @ ''get_metadata_v1 is deprecated. Use get_metadata.'' @ sq, ''DeprecationWarning'']
        ''warnings.warn'' [] (''('', '')'') False,
      Line 2 ''arg = None'',
      MultilineList 2 [''files.get_metadata_v1'', sq @ ''files'' @ sq, ''arg'', ''None'']
        ''r = self.request'' [] (''('', '')'') False,
      Line 2 ''return None'',
      Line 1 []]"

definition old_api :: "namespace list" where
  "old_api = [\<lparr>ns_name = ''files'', ns_data_types = [], ns_routes = [old_route]\<rparr>]"

definition old_module :: "emitted list" where
  "old_module =
     [Raw base,
      Line 0 ''import warnings'',
      Line 0 [],
      Line 0 ''from . import ('',
      Line 0 '')'',
      Line 0 [],
      Line 0 [],
      Line 0 ''class DropboxBase(object):'',
      Line 1 ''__metaclass__ = ABCMeta'',
      Line 1 [],
      Line 1 ''@abstractmethod'',
      Line 1 ''def request(self, route, namespace, arg, arg_binary=None):'',
      Line 2 ''pass'',
      Line 1 [],
      Line 1 ''# ------------------------------------------'',
      Line 1 ''# Routes in files namespace'',
      Line 1 []] @ old_method"

section \<open>Vocabulary of the properties\<close>

text \<open>
  The leading parameters of a declaration (receiver, extra arguments, binary body), the
  text before its parameter list, and the fields whose default the value renderer can
  render: a reference to a tag needs the namespace of a user-defined field type.
\<close>

definition decl_prefix :: "string list option \<Rightarrow> bool \<Rightarrow> string list" where
  "decl_prefix extra_args request_binary_body =
     [''self''] @ (case extra_args of None \<Rightarrow> [] | Some xs \<Rightarrow> xs) @
     (if request_binary_body then [''f''] else [])"

definition decl_name :: "helpers \<Rightarrow> namespace \<Rightarrow> route \<Rightarrow> string option \<Rightarrow> string" where
  "decl_name h namespace route method_name_suffix =
     ''def '' @ fmt_func h (ns_name namespace) @ ''_'' @ fmt_func h (route_name route) @
     (case method_name_suffix of None \<Rightarrow> [] | Some s \<Rightarrow> s)"

definition renderable_default :: "field \<Rightarrow> bool" where
  "renderable_default f =
     (is_nullable_type (field_data_type f) \<or>
      (case field_default f of
         Some d \<Rightarrow> is_tag_ref d \<longrightarrow> is_user_defined_type (field_data_type f)
       | None \<Rightarrow> True))"

text \<open>
  Modelled from the spec: the generator renders references to tagged variants but has no
  resolver for them. A rendered reference is resolved by reading it as the namespace, the
  class and the tag, separated by dots; a text that does not have exactly three parts
  resolves to nothing.
\<close>

fun split_dots :: "string \<Rightarrow> string list" where
  "split_dots [] = [] # []"
| "split_dots (c # cs) =
     (if c = CHR ''.'' then [] # split_dots cs
      else (case split_dots cs of
              [] \<Rightarrow> [c] # []
            | x # xs \<Rightarrow> (c # x) # xs))"

definition resolve_reference :: "string \<Rightarrow> (string \<times> string \<times> string) option" where
  "resolve_reference s =
     (case split_dots s of
        [namespace, cls, tag] \<Rightarrow> Some (namespace, cls, tag)
      | _ \<Rightarrow> None)"

text \<open>
  The parameters a declaration derives from the argument type, the two styles, the
  docstring call of \<^verbatim>\<open>_generate_route_helper\<close> with its extra arguments spelled out,
  the indentation depth of an emitted item, and the test for a method declaration.
\<close>

definition arg_params :: "helpers \<Rightarrow> data_type \<Rightarrow> error + string list" where
  "arg_params h t =
     (case t of
        Struct u \<Rightarrow> map_result (route_method_decl_field h) (udt_all_fields u)
      | Union u \<Rightarrow> Inr [''arg'']
      | Void \<Rightarrow> Inr []
      | _ \<Rightarrow> Inl (UnhandledRequestType t))"

definition is_upload :: "route \<Rightarrow> bool" where
  "is_upload r = (attrs r ''style'' = Some (LStr ''upload''))"

definition is_download :: "route \<Rightarrow> bool" where
  "is_download r = (attrs r ''style'' = Some (LStr ''download''))"

definition route_docstring ::
  "helpers \<Rightarrow> nat \<Rightarrow> namespace \<Rightarrow> route \<Rightarrow> bool \<Rightarrow> string option \<Rightarrow> error + emitted list" where
  "route_docstring h ind namespace route download_to_file overview =
     generate_docstring_for_func h (ind + 1) namespace (arg_data_type route)
       (result_data_type route) (error_data_type route) overview
       (if is_upload route then Some [(''f'', None, ''A string or file-like obj of data.'')]
        else if download_to_file then
          Some [(''download_path'', Some ''str'', ''Path on local machine to save file.'')]
        else None)
       (if is_download route then Some ('':class:'' @ bq @ ''requests.models.Response'' @ bq)
        else None)
       (if is_download route \<and> \<not> download_to_file then Some DOCSTRING_CLOSE_RESPONSE else None)"

definition indent_of :: "emitted \<Rightarrow> nat" where
  "indent_of e =
     (case e of
        Raw s \<Rightarrow> 0
      | Line n s \<Rightarrow> n
      | WrappedText n s p \<Rightarrow> n
      | MultilineList n xs b a d c \<Rightarrow> n)"

definition is_method_decl :: "emitted \<Rightarrow> bool" where
  "is_method_decl e =
     (case e of
        MultilineList n xs b a d c \<Rightarrow> take 4 b = ''def ''
      | _ \<Rightarrow> False)"

text \<open>
  The test for a request call. Following the words of the specification, two variants
  differ only in the parts for the file when the second has the name of the first with the
  suffix \<open>_to_file\<close>, one more parameter \<open>download_path\<close> after the receiver, and a body
  that is the body of the first with the call that saves the file added.
\<close>

definition is_request_call :: "emitted \<Rightarrow> bool" where
  "is_request_call e =
     (case e of
        MultilineList n xs b a d c \<Rightarrow> b = ''r = self.request''
      | _ \<Rightarrow> False)"



section \<open>Properties\<close>

subsection \<open>Auxiliary facts\<close>

lemma bind_Inr [simp]: "bind (Inr x) f = f x"
  by (simp add: bind_def)

lemma bind_Inl [simp]: "bind (Inl e) f = Inl e"
  by (simp add: bind_def)

lemma bind_eq_Inr: "bind m f = Inr y \<longleftrightarrow> (\<exists>x. m = Inr x \<and> f x = Inr y)"
  by (cases m) simp_all

lemma rsplit_space_append:
  assumes "CHR '' '' \<notin> set url"
  shows "rsplit_space (anchor @ '' '' @ url) = Inr (anchor, url)"
proof -
  let ?P = "\<lambda>c. c \<noteq> CHR '' ''"
  have all: "\<And>x. x \<in> set (rev url) \<Longrightarrow> ?P x"
    using assms by auto
  have r: "rev (anchor @ '' '' @ url) = rev url @ CHR '' '' # rev anchor"
    by simp
  have t: "takeWhile ?P (rev url @ CHR '' '' # rev anchor) = rev url"
    by (subst takeWhile_append2) (use all in auto)
  have d: "dropWhile ?P (rev url @ CHR '' '' # rev anchor) = CHR '' '' # rev anchor"
    by (subst dropWhile_append2) (use all in auto)
  show ?thesis
    unfolding rsplit_space_def r t d by simp
qed

subsection \<open>Inline doc references\<close>

text \<open>
  C7. The doc-tag translator knows exactly five tags. \<open>type\<close> gives a class
  reference, \<open>route\<close> a method reference to the route name formatted as a method name,
  \<open>link\<close> the anchor and the url cut at the last space of the payload, \<open>val\<close> gives
  \<open>None\<close> for \<open>null\<close>, the capitalised literal for \<open>true\<close> and \<open>false\<close> and the
  payload itself otherwise, \<open>field\<close> an inline code literal. Any other tag fails with an
  error that carries the tag.
\<close>

theorem docf_closed_mapping:
  "docf h ''type'' v = Inr ('':class:'' @ bq @ v @ bq) \<and>
   docf h ''route'' v = Inr ('':meth:'' @ bq @ fmt_func h v @ bq) \<and>
   (CHR '' '' \<notin> set url \<longrightarrow>
      docf h ''link'' (anchor @ '' '' @ url) = Inr (bq @ anchor @ '' <'' @ url @ ''>'' @ bq @ ''_'')) \<and>
   docf h ''val'' ''null'' = Inr ''None'' \<and>
   docf h ''val'' ''true'' = Inr (bq @ bq @ ''True'' @ bq @ bq) \<and>
   docf h ''val'' ''false'' = Inr (bq @ bq @ ''False'' @ bq @ bq) \<and>
   (v \<notin> {''null'', ''true'', ''false''} \<longrightarrow> docf h ''val'' v = Inr v) \<and>
   docf h ''field'' v = Inr (bq @ bq @ v @ bq @ bq) \<and>
   (tag \<notin> {''type'', ''route'', ''link'', ''val'', ''field''} \<longrightarrow>
      docf h tag v = Inl (UnknownDocRefTag tag))"
proof -
  have link: "CHR '' '' \<notin> set url \<longrightarrow>
      docf h ''link'' (anchor @ '' '' @ url) = Inr (bq @ anchor @ '' <'' @ url @ ''>'' @ bq @ ''_'')"
    by (simp add: docf_def rsplit_space_append del: append_Cons)
  show ?thesis
    using link by (simp add: docf_def capitalize_def)
qed

theorem docf_closed_mapping_witness:
  "CHR '' '' \<notin> set ''https://x.y'' \<and>
   ''42'' \<notin> {''null'', ''true'', ''false''} \<and>
   ''code'' \<notin> {''type'', ''route'', ''link'', ''val'', ''field''} \<and>
   docf sample_helpers ''link'' ''Stone docs https://x.y'' =
     Inr (bq @ ''Stone docs <https://x.y>'' @ bq @ ''_'') \<and>
   docf sample_helpers ''val'' ''42'' = Inr ''42'' \<and>
   docf sample_helpers ''code'' ''42'' = Inl (UnknownDocRefTag ''code'')"
  using docf_closed_mapping [of sample_helpers "''42''" "''https://x.y''" "''Stone docs''" "''code''"]
  by simp

subsection \<open>Method declaration\<close>

lemma map_result_Inr_iff:
  "map_result f xs = Inr ys \<longleftrightarrow> list_all2 (\<lambda>x y. f x = Inr y) xs ys"
  by (induction xs arbitrary: ys) (auto simp: bind_eq_Inr list_all2_Cons1)

lemma decl_struct_iff:
  "generate_route_method_decl h ind ns r (Struct u) rbb sfx extra = Inr out \<longleftrightarrow>
   (\<exists>params. map_result (route_method_decl_field h) (udt_all_fields u) = Inr params \<and>
      out = [MultilineList ind (decl_prefix extra rbb @ params) (decl_name h ns r sfx)
               '':'' (''('', '')'') True])"
  by (auto simp: generate_route_method_decl_def decl_prefix_def decl_name_def bind_eq_Inr
      split: option.splits)

lemma decl_field_cases:
  "route_method_decl_field h f = Inr p \<Longrightarrow>
   (is_nullable_type (field_data_type f) \<longrightarrow> p = field_name f @ ''=None'') \<and>
   (\<not> is_nullable_type (field_data_type f) \<and> has_default f \<longrightarrow>
      (\<exists>d v. field_default f = Some d \<and>
         generate_python_value h (default_namespace (field_data_type f)) d = Inr v \<and>
         p = field_name f @ ''='' @ v)) \<and>
   (\<not> is_nullable_type (field_data_type f) \<and> \<not> has_default f \<longrightarrow> p = field_name f)"
  by (auto simp: route_method_decl_field_def has_default_def bind_eq_Inr
      split: if_splits option.splits)

lemma decl_field_total:
  "renderable_default f \<Longrightarrow> \<exists>p. route_method_decl_field h f = Inr p"
  by (auto simp: route_method_decl_field_def renderable_default_def generate_python_value_def
      default_namespace_def is_user_defined_type_def
      split: option.splits data_type.splits)

lemma map_result_total:
  "(\<And>x. x \<in> set xs \<Longrightarrow> \<exists>y. f x = Inr y) \<Longrightarrow> \<exists>ys. map_result f xs = Inr ys"
proof (induction xs)
  case Nil
  then show ?case by simp
next
  case (Cons x xs)
  then obtain y ys where "f x = Inr y" "map_result f xs = Inr ys"
    by (meson list.set_intros)
  then show ?case by simp
qed

text \<open>
  C1. For a route whose argument is a struct, the declaration lists the receiver, the
  extra arguments and the binary body, then one parameter per field of \<open>all_fields\<close>
  in that order: \<open>name=None\<close> for a nullable field, \<open>name=\<close> followed by the rendered
  default for a non-nullable field with a default, and the bare name otherwise. The
  declaration is produced whenever every default can be rendered.
\<close>

theorem struct_signature_params:
  "(list_all renderable_default (udt_all_fields u) \<longrightarrow>
      (\<exists>out. generate_route_method_decl h ind ns r (Struct u) rbb sfx extra = Inr out)) \<and>
   (generate_route_method_decl h ind ns r (Struct u) rbb sfx extra = Inr out \<longrightarrow>
      (\<exists>params.
         out = [MultilineList ind
                  ([''self''] @ (case extra of None \<Rightarrow> [] | Some xs \<Rightarrow> xs) @
                   (if rbb then [''f''] else []) @ params)
                  (''def '' @ fmt_func h (ns_name ns) @ ''_'' @ fmt_func h (route_name r) @
                   (case sfx of None \<Rightarrow> [] | Some s \<Rightarrow> s))
                  '':'' (''('', '')'') True] \<and>
         length params = length (udt_all_fields u) \<and>
         (\<forall>i < length params.
            (is_nullable_type (field_data_type (udt_all_fields u ! i)) \<longrightarrow>
               params ! i = field_name (udt_all_fields u ! i) @ ''=None'') \<and>
            (\<not> is_nullable_type (field_data_type (udt_all_fields u ! i)) \<and>
             has_default (udt_all_fields u ! i) \<longrightarrow>
               (\<exists>d v. field_default (udt_all_fields u ! i) = Some d \<and>
                  generate_python_value h
                    (default_namespace (field_data_type (udt_all_fields u ! i))) d = Inr v \<and>
                  params ! i = field_name (udt_all_fields u ! i) @ ''='' @ v)) \<and>
            (\<not> is_nullable_type (field_data_type (udt_all_fields u ! i)) \<and>
             \<not> has_default (udt_all_fields u ! i) \<longrightarrow>
               params ! i = field_name (udt_all_fields u ! i)))))"
proof (intro conjI impI)
  assume "list_all renderable_default (udt_all_fields u)"
  then have "\<exists>ps. map_result (route_method_decl_field h) (udt_all_fields u) = Inr ps"
    by (intro map_result_total decl_field_total) (simp add: list_all_iff)
  then show "\<exists>out. generate_route_method_decl h ind ns r (Struct u) rbb sfx extra = Inr out"
    by (auto simp: decl_struct_iff)
next
  assume "generate_route_method_decl h ind ns r (Struct u) rbb sfx extra = Inr out"
  then obtain params where
    ps: "list_all2 (\<lambda>f p. route_method_decl_field h f = Inr p) (udt_all_fields u) params" and
    out: "out = [MultilineList ind (decl_prefix extra rbb @ params) (decl_name h ns r sfx)
               '':'' (''('', '')'') True]"
    by (auto simp: decl_struct_iff map_result_Inr_iff)
  have len: "length params = length (udt_all_fields u)"
    using ps by (simp add: list_all2_lengthD)
  have each: "\<And>i. i < length params \<Longrightarrow>
      route_method_decl_field h (udt_all_fields u ! i) = Inr (params ! i)"
    using ps len by (auto dest: list_all2_nthD)
  show "\<exists>params.
         out = [MultilineList ind
                  ([''self''] @ (case extra of None \<Rightarrow> [] | Some xs \<Rightarrow> xs) @
                   (if rbb then [''f''] else []) @ params)
                  (''def '' @ fmt_func h (ns_name ns) @ ''_'' @ fmt_func h (route_name r) @
                   (case sfx of None \<Rightarrow> [] | Some s \<Rightarrow> s))
                  '':'' (''('', '')'') True] \<and>
         length params = length (udt_all_fields u) \<and>
         (\<forall>i < length params.
            (is_nullable_type (field_data_type (udt_all_fields u ! i)) \<longrightarrow>
               params ! i = field_name (udt_all_fields u ! i) @ ''=None'') \<and>
            (\<not> is_nullable_type (field_data_type (udt_all_fields u ! i)) \<and>
             has_default (udt_all_fields u ! i) \<longrightarrow>
               (\<exists>d v. field_default (udt_all_fields u ! i) = Some d \<and>
                  generate_python_value h
                    (default_namespace (field_data_type (udt_all_fields u ! i))) d = Inr v \<and>
                  params ! i = field_name (udt_all_fields u ! i) @ ''='' @ v)) \<and>
            (\<not> is_nullable_type (field_data_type (udt_all_fields u ! i)) \<and>
             \<not> has_default (udt_all_fields u ! i) \<longrightarrow>
               params ! i = field_name (udt_all_fields u ! i)))"
  proof -
    have per: "\<forall>i < length params.
            (is_nullable_type (field_data_type (udt_all_fields u ! i)) \<longrightarrow>
               params ! i = field_name (udt_all_fields u ! i) @ ''=None'') \<and>
            (\<not> is_nullable_type (field_data_type (udt_all_fields u ! i)) \<and>
             has_default (udt_all_fields u ! i) \<longrightarrow>
               (\<exists>d v. field_default (udt_all_fields u ! i) = Some d \<and>
                  generate_python_value h
                    (default_namespace (field_data_type (udt_all_fields u ! i))) d = Inr v \<and>
                  params ! i = field_name (udt_all_fields u ! i) @ ''='' @ v)) \<and>
            (\<not> is_nullable_type (field_data_type (udt_all_fields u ! i)) \<and>
             \<not> has_default (udt_all_fields u ! i) \<longrightarrow>
               params ! i = field_name (udt_all_fields u ! i))"
      using decl_field_cases [OF each] by blast
    have shape: "out = [MultilineList ind
                  ([''self''] @ (case extra of None \<Rightarrow> [] | Some xs \<Rightarrow> xs) @
                   (if rbb then [''f''] else []) @ params)
                  (''def '' @ fmt_func h (ns_name ns) @ ''_'' @ fmt_func h (route_name r) @
                   (case sfx of None \<Rightarrow> [] | Some s \<Rightarrow> s))
                  '':'' (''('', '')'') True]"
      using out by (simp add: decl_prefix_def decl_name_def)
    from shape len per show ?thesis by blast
  qed
qed

theorem struct_signature_params_witness:
  "list_all renderable_default (udt_all_fields get_metadata_arg) \<and>
   generate_route_method_decl sample_helpers 1 files_ns get_metadata (Struct get_metadata_arg)
     False None None =
     Inr [MultilineList 1 [''self'', ''path'', ''include_media_info=None'']
            ''def files_get_metadata'' '':'' (''('', '')'') True]"
  using struct_signature_params [of get_metadata_arg sample_helpers 1 files_ns get_metadata
      False None None
      "[MultilineList 1 [''self'', ''path'', ''include_media_info=None'']
            ''def files_get_metadata'' '':'' (''('', '')'') True]"]
  by (simp add: get_metadata_arg_def renderable_default_def is_nullable_type_def
      generate_route_method_decl_def route_method_decl_field_def sample_helpers_def
      files_ns_def get_metadata_def)

text \<open>
  C10. A field that is nullable and has a default is rendered as \<open>name=None\<close>, in the
  field's parameter and in the declaration as a whole; the parameter is the one the same
  field without a default would get, so the default is never rendered.
\<close>

theorem nullable_default_renders_none:
  "(is_nullable_type (field_data_type f) \<and> has_default f \<longrightarrow>
      route_method_decl_field h f = Inr (field_name f @ ''=None'') \<and>
      route_method_decl_field h f =
        route_method_decl_field h (Field (field_name f) (field_data_type f) (field_doc f) None)) \<and>
   (generate_route_method_decl h ind ns r (Struct u) rbb sfx extra = Inr out \<and>
    i < length (udt_all_fields u) \<and>
    is_nullable_type (field_data_type (udt_all_fields u ! i)) \<and>
    has_default (udt_all_fields u ! i) \<longrightarrow>
      (\<exists>params.
         out = [MultilineList ind
                  ([''self''] @ (case extra of None \<Rightarrow> [] | Some xs \<Rightarrow> xs) @
                   (if rbb then [''f''] else []) @ params)
                  (''def '' @ fmt_func h (ns_name ns) @ ''_'' @ fmt_func h (route_name r) @
                   (case sfx of None \<Rightarrow> [] | Some s \<Rightarrow> s))
                  '':'' (''('', '')'') True] \<and>
         length params = length (udt_all_fields u) \<and>
         params ! i = field_name (udt_all_fields u ! i) @ ''=None''))"
proof (intro conjI impI)
  assume "is_nullable_type (field_data_type f) \<and> has_default f"
  then show "route_method_decl_field h f = Inr (field_name f @ ''=None'')"
    and "route_method_decl_field h f =
        route_method_decl_field h (Field (field_name f) (field_data_type f) (field_doc f) None)"
    by (simp_all add: route_method_decl_field_def)
next
  assume a: "generate_route_method_decl h ind ns r (Struct u) rbb sfx extra = Inr out \<and>
    i < length (udt_all_fields u) \<and>
    is_nullable_type (field_data_type (udt_all_fields u ! i)) \<and>
    has_default (udt_all_fields u ! i)"
  then obtain params where
    ps: "list_all2 (\<lambda>f p. route_method_decl_field h f = Inr p) (udt_all_fields u) params" and
    out: "out = [MultilineList ind (decl_prefix extra rbb @ params) (decl_name h ns r sfx)
               '':'' (''('', '')'') True]"
    by (auto simp: decl_struct_iff map_result_Inr_iff)
  have len: "length params = length (udt_all_fields u)"
    using ps by (simp add: list_all2_lengthD)
  have "route_method_decl_field h (udt_all_fields u ! i) = Inr (params ! i)"
    using ps a by (auto dest: list_all2_nthD)
  then have p: "params ! i = field_name (udt_all_fields u ! i) @ ''=None''"
    using a by (simp add: route_method_decl_field_def)
  have shape: "out = [MultilineList ind
                  ([''self''] @ (case extra of None \<Rightarrow> [] | Some xs \<Rightarrow> xs) @
                   (if rbb then [''f''] else []) @ params)
                  (''def '' @ fmt_func h (ns_name ns) @ ''_'' @ fmt_func h (route_name r) @
                   (case sfx of None \<Rightarrow> [] | Some s \<Rightarrow> s))
                  '':'' (''('', '')'') True]"
    using out by (simp add: decl_prefix_def decl_name_def)
  from shape len p show "\<exists>params.
         out = [MultilineList ind
                  ([''self''] @ (case extra of None \<Rightarrow> [] | Some xs \<Rightarrow> xs) @
                   (if rbb then [''f''] else []) @ params)
                  (''def '' @ fmt_func h (ns_name ns) @ ''_'' @ fmt_func h (route_name r) @
                   (case sfx of None \<Rightarrow> [] | Some s \<Rightarrow> s))
                  '':'' (''('', '')'') True] \<and>
         length params = length (udt_all_fields u) \<and>
         params ! i = field_name (udt_all_fields u ! i) @ ''=None''"
    by blast
qed

theorem nullable_default_renders_none_witness:
  "is_nullable_type (field_data_type (udt_all_fields null_default_arg ! 1)) \<and>
   has_default (udt_all_fields null_default_arg ! 1) \<and>
   (1::nat) < length (udt_all_fields null_default_arg) \<and>
   route_method_decl_field sample_helpers (udt_all_fields null_default_arg ! 1) = Inr ''cursor=None'' \<and>
   generate_route_method_decl sample_helpers 1 files_ns get_metadata (Struct null_default_arg)
     False None None =
     Inr [MultilineList 1 [''self'', ''path'', ''cursor=None'']
            ''def files_get_metadata'' '':'' (''('', '')'') True]"
  using nullable_default_renders_none [of "udt_all_fields null_default_arg ! 1" sample_helpers
      1 files_ns get_metadata null_default_arg False None None
      "[MultilineList 1 [''self'', ''path'', ''cursor=None'']
            ''def files_get_metadata'' '':'' (''('', '')'') True]" 1]
  by (simp add: null_default_arg_def is_nullable_type_def has_default_def
      generate_route_method_decl_def route_method_decl_field_def sample_helpers_def
      files_ns_def get_metadata_def)

subsection \<open>Default values that refer to a tag\<close>

lemma split_dots_plain: "CHR ''.'' \<notin> set a \<Longrightarrow> split_dots a = [a]"
  by (induction a) auto

lemma split_dots_append:
  "CHR ''.'' \<notin> set a \<Longrightarrow> split_dots (a @ ''.'' @ rest) = a # split_dots rest"
  by (induction a) auto

lemma resolve_reference_dotted:
  assumes "CHR ''.'' \<notin> set a" "CHR ''.'' \<notin> set b" "CHR ''.'' \<notin> set c"
  shows "resolve_reference (a @ ''.'' @ b @ ''.'' @ c) = Some (a, b, c)"
  unfolding resolve_reference_def
  using assms by (simp add: split_dots_append split_dots_plain del: append_Cons)

text \<open>
  C8. A default that refers to a tag of a union is rendered as the namespace of the
  union, the class name of the union and the tag name, joined by dots; this is what the
  declaration shows for a field of that union type. When none of the three parts contains
  a dot, resolving the rendered reference gives back the three parts.
\<close>

theorem tag_ref_round_trip:
  "generate_python_value h (Some (udt_namespace u)) (TagRef (Union u) t) =
     Inr (udt_namespace u @ ''.'' @ class_name_for_data_type h (Union u) @ ''.'' @ fmt_var h t) \<and>
   route_method_decl_field h (Field n (Union u) d (Some (TagRef (Union u) t))) =
     Inr (n @ ''='' @ udt_namespace u @ ''.'' @ class_name_for_data_type h (Union u) @ ''.'' @
          fmt_var h t) \<and>
   (CHR ''.'' \<notin> set (udt_namespace u) \<and>
    CHR ''.'' \<notin> set (class_name_for_data_type h (Union u)) \<and>
    CHR ''.'' \<notin> set (fmt_var h t) \<longrightarrow>
      resolve_reference
        (udt_namespace u @ ''.'' @ class_name_for_data_type h (Union u) @ ''.'' @ fmt_var h t) =
        Some (udt_namespace u, class_name_for_data_type h (Union u), fmt_var h t))"
proof -
  have v: "generate_python_value h (Some (udt_namespace u)) (TagRef (Union u) t) =
     Inr (udt_namespace u @ ''.'' @ class_name_for_data_type h (Union u) @ ''.'' @ fmt_var h t)"
    by (simp add: generate_python_value_def is_tag_ref_def)
  have f: "route_method_decl_field h (Field n (Union u) d (Some (TagRef (Union u) t))) =
     Inr (n @ ''='' @ udt_namespace u @ ''.'' @ class_name_for_data_type h (Union u) @ ''.'' @
          fmt_var h t)"
    by (simp add: route_method_decl_field_def is_nullable_type_def default_namespace_def v)
  show ?thesis
    using v f resolve_reference_dotted by simp
qed

theorem tag_ref_round_trip_witness:
  "CHR ''.'' \<notin> set (udt_namespace status_union) \<and>
   CHR ''.'' \<notin> set (class_name_for_data_type sample_helpers (Union status_union)) \<and>
   CHR ''.'' \<notin> set (fmt_var sample_helpers ''active'') \<and>
   generate_python_value sample_helpers (Some ''files'') (TagRef (Union status_union) ''active'') =
     Inr ''files.Status.active'' \<and>
   resolve_reference ''files.Status.active'' = Some (''files'', ''Status'', ''active'')"
  using tag_ref_round_trip [of sample_helpers status_union "''active''" "''status''" None]
  by (simp add: status_union_def sample_helpers_def)

subsection \<open>Fatal errors\<close>

text \<open>
  C9. When the argument type of a route is neither void, a struct nor a union, the
  declaration and the statement that instantiates the argument both fail with an error
  that carries the type, and so does the generation of the route. Asking for the
  file variant of a route whose style is not \<open>download\<close> fails on the assertion.
\<close>

theorem unhandled_request_type:
  "(\<not> is_void_type t \<and> \<not> is_struct_type t \<and> \<not> is_union_type t \<longrightarrow>
      generate_route_method_decl h ind ns r t rbb sfx extra = Inl (UnhandledRequestType t) \<and>
      route_helper_arg h ind t = Inl (UnhandledRequestType t)) \<and>
   (\<not> is_void_type (arg_data_type r) \<and> \<not> is_struct_type (arg_data_type r) \<and>
    \<not> is_union_type (arg_data_type r) \<longrightarrow>
      generate_route_helper h ind ns r False = Inl (UnhandledRequestType (arg_data_type r)) \<and>
      generate_route h ind ns r = Inl (UnhandledRequestType (arg_data_type r))) \<and>
   (attrs r ''style'' \<noteq> Some (LStr ''download'') \<longrightarrow>
      generate_route_helper h ind ns r True = Inl DownloadToFileAssertion)"
proof -
  have decl: "generate_route_method_decl h ind ns r t rbb sfx extra = Inl (UnhandledRequestType t)"
    if "\<not> is_void_type t \<and> \<not> is_struct_type t \<and> \<not> is_union_type t" for t rbb sfx extra
    using that
    by (cases t)
      (simp_all add: generate_route_method_decl_def is_void_type_def is_struct_type_def
        is_union_type_def Let_def)
  have arg: "route_helper_arg h ind t = Inl (UnhandledRequestType t)"
    if "\<not> is_void_type t \<and> \<not> is_struct_type t \<and> \<not> is_union_type t"
    using that
    by (cases t)
      (simp_all add: route_helper_arg_def is_void_type_def is_struct_type_def is_union_type_def)
  have helper: "generate_route_helper h ind ns r False = Inl (UnhandledRequestType (arg_data_type r))"
    if "\<not> is_void_type (arg_data_type r) \<and> \<not> is_struct_type (arg_data_type r) \<and>
        \<not> is_union_type (arg_data_type r)"
    using decl [OF that] by (simp add: generate_route_helper_def Let_def)
  have route: "generate_route h ind ns r = Inl (UnhandledRequestType (arg_data_type r))"
    if "\<not> is_void_type (arg_data_type r) \<and> \<not> is_struct_type (arg_data_type r) \<and>
        \<not> is_union_type (arg_data_type r)"
    using helper [OF that] by (simp add: generate_route_def)
  have dl: "generate_route_helper h ind ns r True = Inl DownloadToFileAssertion"
    if "attrs r ''style'' \<noteq> Some (LStr ''download'')"
    using that by (simp add: generate_route_helper_def Let_def)
  show ?thesis
    using decl arg helper route dl by blast
qed

theorem unhandled_request_type_witness:
  "\<not> is_void_type (arg_data_type bad_route) \<and> \<not> is_struct_type (arg_data_type bad_route) \<and>
   \<not> is_union_type (arg_data_type bad_route) \<and>
   attrs bad_route ''style'' \<noteq> Some (LStr ''download'') \<and>
   generate_route_method_decl sample_helpers 1 files_ns bad_route (Primitive ''String'')
     False None None = Inl (UnhandledRequestType (Primitive ''String'')) \<and>
   route_helper_arg sample_helpers 2 (Primitive ''String'') =
     Inl (UnhandledRequestType (Primitive ''String'')) \<and>
   generate_route sample_helpers 1 files_ns bad_route =
     Inl (UnhandledRequestType (Primitive ''String'')) \<and>
   generate_route_helper sample_helpers 1 files_ns bad_route True = Inl DownloadToFileAssertion"
  using unhandled_request_type [of "Primitive ''String''" sample_helpers 1 files_ns bad_route
      False None None]
    unhandled_request_type [of "Primitive ''String''" sample_helpers 2 files_ns bad_route
      False None None]
  by (simp add: bad_route_def is_void_type_def is_struct_type_def is_union_type_def)

subsection \<open>Shape of the emitted docstring and method\<close>

lemma decl_iff:
  "generate_route_method_decl h ind ns r t rbb sfx extra = Inr out \<longleftrightarrow>
   (\<exists>params. arg_params h t = Inr params \<and>
      out = [MultilineList ind (decl_prefix extra rbb @ params) (decl_name h ns r sfx)
               '':'' (''('', '')'') True])"
  by (auto simp: generate_route_method_decl_def arg_params_def decl_prefix_def decl_name_def
      bind_eq_Inr split: option.splits)

lemma helper_iff:
  "generate_route_helper h ind ns r dtf = Inr out \<longleftrightarrow>
   (\<exists>decl ov doc mat.
      (dtf \<longrightarrow> is_download r) \<and>
      generate_route_method_decl h ind ns r (arg_data_type r) (is_upload r)
        (if dtf then Some ''_to_file'' else None)
        (if dtf then Some [''download_path''] else None) = Inr decl \<and>
      process_doc h (docf h) (route_doc r) = Inr ov \<and>
      route_docstring h ind ns r dtf ov = Inr doc \<and>
      route_helper_arg h (ind + 1) (arg_data_type r) = Inr mat \<and>
      out = decl @ doc @ maybe_generate_deprecation_warning (ind + 1) r @ mat @
            [route_helper_request h (ind + 1) ns r (is_upload r)] @
            route_helper_return (ind + 1) (result_data_type r) dtf @ [Line ind []])"
  unfolding generate_route_helper_def route_docstring_def is_upload_def is_download_def Let_def
  by (cases dtf) (auto simp: bind_eq_Inr truthy_list_def)

lemma concat_result_all:
  assumes "concat_result f xs = Inr ys"
    and "\<And>x out. x \<in> set xs \<Longrightarrow> f x = Inr out \<Longrightarrow> list_all P out"
  shows "list_all P ys"
  using assms
proof (induction xs arbitrary: ys)
  case Nil
  then show ?case by simp
next
  case (Cons x xs)
  from Cons.prems(1) obtain a b where
    a: "f x = Inr a" and b: "concat_result f xs = Inr b" and ys: "ys = a @ b"
    by (auto simp: bind_eq_Inr)
  have "list_all P a" using Cons.prems(2) [of x a] a by simp
  moreover have "list_all P b" using Cons.IH [OF b] Cons.prems(2) by auto
  ultimately show ?case using ys by simp
qed

lemma docstring_field_all:
  assumes "docstring_field h ind ns f = Inr out"
    and line: "\<And>s. s \<noteq> triple_quote \<Longrightarrow> P (Line ind s)"
    and wrapped: "\<And>s p. P (WrappedText ind s p)"
  shows "list_all P out"
proof -
  have 1: "P (Line ind ('':type '' @ field_name f @ '': '' @
                        format_type_in_doc h ns (field_data_type f)))"
    by (rule line) (simp add: triple_quote_def)
  show ?thesis
    using assms(1) 1 wrapped
    by (auto simp: docstring_field_def bind_eq_Inr split: if_splits)
qed

lemma docstring_union_all:
  assumes "docstring_union h ind ns t u = Inr out"
    and line: "\<And>s. s \<noteq> triple_quote \<Longrightarrow> P (Line ind s)"
    and wrapped: "\<And>s p. P (WrappedText ind s p)"
  shows "list_all P out"
proof -
  have 1: "P (Line ind ('':type arg: '' @ format_type_in_doc h ns t))"
    by (rule line) (simp add: triple_quote_def)
  show ?thesis
    using assms(1) 1 wrapped
    by (auto simp: docstring_union_def bind_eq_Inr split: if_splits)
qed

lemma docstring_extra_arg_all:
  assumes "\<And>s p. P (WrappedText ind s p)"
  shows "P (docstring_extra_arg ind e)"
  using assms by (cases e) (simp add: docstring_extra_arg_def)


lemma list_all_if:
  "list_all P (if c then xs else ys) \<longleftrightarrow> (c \<longrightarrow> list_all P xs) \<and> (\<not> c \<longrightarrow> list_all P ys)"
  by simp

lemma docstring_args_all:
  assumes "docstring_args h ind ns a flds ov era = Inr params"
    and line: "\<And>s. s \<noteq> triple_quote \<Longrightarrow> P (Line ind s)"
    and wrapped: "\<And>s p. P (WrappedText ind s p)"
  shows "list_all P params"
proof (cases "truthy_list era \<or> flds \<noteq> []")
  case False
  then show ?thesis using assms(1) by (simp add: docstring_args_def)
next
  case True
  from True assms(1) obtain fs where
    fs: "(case a of
            Struct u \<Rightarrow> concat_result (docstring_field h ind ns) flds
          | Union u \<Rightarrow> docstring_union h ind ns a u
          | _ \<Rightarrow> Inr []) = Inr fs" and
    params: "params = (if truthy ov then [Line ind []] else []) @
                      (case era of None \<Rightarrow> [] | Some es \<Rightarrow> map (docstring_extra_arg ind) es) @ fs"
    by (auto simp: docstring_args_def bind_eq_Inr)
  have "list_all P fs"
  proof (cases a)
    case (Struct u)
    with fs have "concat_result (docstring_field h ind ns) flds = Inr fs" by simp
    then show ?thesis
      by (rule concat_result_all) (rule docstring_field_all [OF _ line wrapped])
  next
    case (Union u)
    with fs have "docstring_union h ind ns a u = Inr fs" by simp
    then show ?thesis
      by (rule docstring_union_all [OF _ line wrapped])
  qed (use fs in auto)
  moreover have "list_all P (case era of None \<Rightarrow> [] | Some es \<Rightarrow> map (docstring_extra_arg ind) es)"
    by (cases era) (simp_all add: list_all_iff docstring_extra_arg_all wrapped)
  moreover have "P (Line ind [])"
    by (rule line) (simp add: triple_quote_def)
  ultimately show ?thesis
    using params by simp
qed

lemma docstring_raises_all:
  assumes "docstring_raises h ind ns err = Inr raises"
    and line: "\<And>s. s \<noteq> triple_quote \<Longrightarrow> P (Line ind s)"
    and deeper: "\<And>s. P (Line (ind + 1) s)"
  shows "list_all P raises"
proof -
  have 1: "P (Line ind ('':raises: :class:'' @ bq @ ''dropbox.exceptions.ApiError'' @ bq))"
    by (rule line) (simp add: triple_quote_def)
  have 2: "P (Line ind [])"
    by (rule line) (simp add: triple_quote_def)
  have 3: "P (Line ind ''If this raises, ApiError.reason is of type:'')"
    by (rule line) (simp add: triple_quote_def)
  show ?thesis
    using assms(1) 1 2 3 deeper [of "format_type_in_doc h ns err"]
    by (auto simp: docstring_raises_def bind_eq_Inr split: if_splits)
qed

lemma docstring_rtype_all:
  assumes line: "\<And>s. s \<noteq> triple_quote \<Longrightarrow> P (Line ind s)"
    and rtype: "\<And>xs. P (MultilineList ind xs '':rtype: '' [] (''('', '')'') True)"
  shows "list_all P (docstring_rtype h ind ns res ert)"
proof -
  have 1: "P (Line ind '':rtype: None'')"
    by (rule line) (simp add: triple_quote_def)
  have 2: "P (Line ind ('':rtype: '' @ format_type_in_doc h ns res))"
    by (rule line) (simp add: triple_quote_def)
  show ?thesis
    using 1 2 rtype by (simp add: docstring_rtype_def)
qed

lemma docstring_fields:
  assumes "generate_docstring_for_func h ind ns a res err ov era ert ft = Inr out"
  shows "\<exists>flds. (if is_void_type a then Inr [] else dt_fields a) = Inr flds"
  using assms unfolding generate_docstring_for_func_def bind_eq_Inr by blast

lemma docstring_skipped:
  assumes "(if is_void_type a then Inr [] else dt_fields a) = Inr flds"
    and "flds = [] \<and> \<not> truthy ov"
  shows "generate_docstring_for_func h ind ns a res err ov era ert ft = Inr []"
  using assms by (simp add: generate_docstring_for_func_def)

lemma docstring_shape:
  assumes ok: "generate_docstring_for_func h ind ns a res err ov era ert ft = Inr out"
    and flds: "(if is_void_type a then Inr [] else dt_fields a) = Inr flds"
    and emitted: "flds \<noteq> [] \<or> truthy ov"
    and line: "\<And>s. s \<noteq> triple_quote \<Longrightarrow> P (Line ind s)"
    and deeper: "\<And>s. P (Line (ind + 1) s)"
    and wrapped: "\<And>s p. P (WrappedText ind s p)"
    and rtype: "\<And>xs. P (MultilineList ind xs '':rtype: '' [] (''('', '')'') True)"
  shows "\<exists>mid. out = Line ind triple_quote # mid @ [Line ind triple_quote] \<and> list_all P mid"
proof -
  have blank: "P (Line ind [])"
    by (rule line) (simp add: triple_quote_def)
  from ok flds emitted obtain params raises where
    params: "docstring_args h ind ns a flds ov era = Inr params" and
    raises: "docstring_raises h ind ns err = Inr raises" and
    out: "out = [Line ind triple_quote] @
               (if truthy ov then [WrappedText ind (py_str ov) []] else []) @
               params @
               (if truthy ov \<and> \<not> (truthy_list era \<or> flds \<noteq> []) then [Line ind []] else []) @
               docstring_rtype h ind ns res ert @
               raises @
               (if truthy ft then [Line ind [], WrappedText ind (py_str ft) []] else []) @
               [Line ind triple_quote]"
    by (auto simp: generate_docstring_for_func_def bind_eq_Inr)
  have p: "list_all P params"
    using params line wrapped by (rule docstring_args_all)
  have r: "list_all P raises"
    using raises line deeper by (rule docstring_raises_all)
  have t: "list_all P (docstring_rtype h ind ns res ert)"
    using line rtype by (rule docstring_rtype_all)
  let ?mid = "(if truthy ov then [WrappedText ind (py_str ov) []] else []) @
               params @
               (if truthy ov \<and> \<not> (truthy_list era \<or> flds \<noteq> []) then [Line ind []] else []) @
               docstring_rtype h ind ns res ert @
               raises @
               (if truthy ft then [Line ind [], WrappedText ind (py_str ft) []] else [])"
  have "out = Line ind triple_quote # ?mid @ [Line ind triple_quote]"
    using out by simp
  moreover have "list_all P ?mid"
    using p r t blank wrapped by (simp add: list_all_if split del: if_split)
  ultimately show ?thesis by blast
qed


lemma docstring_all:
  assumes ok: "generate_docstring_for_func h ind ns a res err ov era ert ft = Inr out"
    and line: "\<And>s. P (Line ind s)"
    and deeper: "\<And>s. P (Line (ind + 1) s)"
    and wrapped: "\<And>s p. P (WrappedText ind s p)"
    and rtype: "\<And>xs. P (MultilineList ind xs '':rtype: '' [] (''('', '')'') True)"
  shows "list_all P out"
proof -
  from docstring_fields [OF ok] obtain flds where
    flds: "(if is_void_type a then Inr [] else dt_fields a) = Inr flds" ..
  show ?thesis
  proof (cases "flds = [] \<and> \<not> truthy ov")
    case True
    from docstring_skipped [OF flds True] ok have "out = []" by simp
    then show ?thesis by simp
  next
    case False
    then have "flds \<noteq> [] \<or> truthy ov" by blast
    from docstring_shape [OF ok flds this, of P] line deeper wrapped rtype
    obtain mid where "out = Line ind triple_quote # mid @ [Line ind triple_quote]"
      and "list_all P mid" by blast
    then show ?thesis using line by simp
  qed
qed

lemma helper_body_all:
  assumes ok: "generate_route_helper h ind ns r dtf = Inr out"
    and line: "\<And>n s. ind \<le> n \<Longrightarrow> P (Line n s)"
    and wrapped: "\<And>n s p. ind \<le> n \<Longrightarrow> P (WrappedText n s p)"
    and mlist: "\<And>n xs b d c. ind \<le> n \<Longrightarrow> take 4 b \<noteq> ''def '' \<Longrightarrow> P (MultilineList n xs b [] d c)"
  shows "\<exists>params body.
           arg_params h (arg_data_type r) = Inr params \<and>
           out = MultilineList ind
                   (decl_prefix (if dtf then Some [''download_path''] else None) (is_upload r) @ params)
                   (decl_name h ns r (if dtf then Some ''_to_file'' else None))
                   '':'' (''('', '')'') True # body \<and>
           list_all P body"
proof -
  from ok obtain decl ov doc mat where
    decl: "generate_route_method_decl h ind ns r (arg_data_type r) (is_upload r)
        (if dtf then Some ''_to_file'' else None)
        (if dtf then Some [''download_path''] else None) = Inr decl" and
    doc: "route_docstring h ind ns r dtf ov = Inr doc" and
    mat: "route_helper_arg h (ind + 1) (arg_data_type r) = Inr mat" and
    out: "out = decl @ doc @ maybe_generate_deprecation_warning (ind + 1) r @ mat @
            [route_helper_request h (ind + 1) ns r (is_upload r)] @
            route_helper_return (ind + 1) (result_data_type r) dtf @ [Line ind []]"
    unfolding helper_iff by blast
  from decl obtain params where
    params: "arg_params h (arg_data_type r) = Inr params" and
    d: "decl = [MultilineList ind
                   (decl_prefix (if dtf then Some [''download_path''] else None) (is_upload r) @ params)
                   (decl_name h ns r (if dtf then Some ''_to_file'' else None))
                   '':'' (''('', '')'') True]"
    unfolding decl_iff by blast
  have 1: "list_all P doc"
    using doc unfolding route_docstring_def
    by (rule docstring_all) (simp_all add: line wrapped mlist)
  have 2: "list_all P (maybe_generate_deprecation_warning (ind + 1) r)"
    by (simp add: maybe_generate_deprecation_warning_def Let_def mlist split: option.splits)
  have 3: "list_all P mat"
    using mat by (cases "arg_data_type r") (auto simp: route_helper_arg_def line mlist)
  have 4: "P (route_helper_request h (ind + 1) ns r (is_upload r))"
    by (simp add: route_helper_request_def mlist)
  have 5: "list_all P (route_helper_return (ind + 1) (result_data_type r) dtf)"
    by (simp add: route_helper_return_def line)
  have 6: "P (Line ind [])"
    by (simp add: line)
  let ?body = "doc @ maybe_generate_deprecation_warning (ind + 1) r @ mat @
            [route_helper_request h (ind + 1) ns r (is_upload r)] @
            route_helper_return (ind + 1) (result_data_type r) dtf @ [Line ind []]"
  have "list_all P ?body"
    using 1 2 3 4 5 6 by simp
  moreover have "out = MultilineList ind
                   (decl_prefix (if dtf then Some [''download_path''] else None) (is_upload r) @ params)
                   (decl_name h ns r (if dtf then Some ''_to_file'' else None))
                   '':'' (''('', '')'') True # ?body"
    using out d by simp
  ultimately show ?thesis
    using params by blast
qed

lemma helper_one_decl:
  assumes "generate_route_helper h ind ns r dtf = Inr out"
  shows "length (filter is_method_decl out) = 1"
proof -
  from helper_body_all [OF assms, of "\<lambda>e. \<not> is_method_decl e"]
  obtain d body where
    out: "out = MultilineList ind
                   (decl_prefix (if dtf then Some [''download_path''] else None) (is_upload r) @ d)
                   (decl_name h ns r (if dtf then Some ''_to_file'' else None))
                   '':'' (''('', '')'') True # body" and
    body: "list_all (\<lambda>e. \<not> is_method_decl e) body"
    by (auto simp: is_method_decl_def)
  have "filter is_method_decl body = []"
    using body by (simp add: list_all_iff filter_empty_conv)
  then show ?thesis
    using out by (simp add: is_method_decl_def decl_name_def)
qed

lemma helper_indent:
  assumes "generate_route_helper h ind ns r dtf = Inr out"
  shows "list_all (\<lambda>e. ind \<le> indent_of e) out"
proof -
  from helper_body_all [OF assms, of "\<lambda>e. ind \<le> indent_of e"]
  obtain d body where
    out: "out = MultilineList ind
                   (decl_prefix (if dtf then Some [''download_path''] else None) (is_upload r) @ d)
                   (decl_name h ns r (if dtf then Some ''_to_file'' else None))
                   '':'' (''('', '')'') True # body" and
    body: "list_all (\<lambda>e. ind \<le> indent_of e) body"
    by (auto simp: indent_of_def)
  show ?thesis
    using out body by (simp add: indent_of_def)
qed

subsection \<open>Docstring\<close>

text \<open>
  C6. The docstring is omitted exactly when there is no overview text and the argument
  type has no fields (it is void, or its field list is empty). Otherwise exactly one block
  is emitted: it opens and closes with the triple quote, which occurs nowhere else in it.
\<close>

theorem docstring_omitted_iff:
  "((is_void_type a \<or> dt_fields a = Inr []) \<and> \<not> truthy ov \<longrightarrow>
      generate_docstring_for_func h ind ns a res err ov era ert ft = Inr []) \<and>
   (generate_docstring_for_func h ind ns a res err ov era ert ft = Inr out \<longrightarrow>
      (out = [] \<longleftrightarrow> (is_void_type a \<or> dt_fields a = Inr []) \<and> \<not> truthy ov) \<and>
      (out \<noteq> [] \<longrightarrow>
         hd out = Line ind triple_quote \<and> last out = Line ind triple_quote \<and>
         count_list out (Line ind triple_quote) = 2))"
proof (intro conjI impI)
  assume "(is_void_type a \<or> dt_fields a = Inr []) \<and> \<not> truthy ov"
  then show "generate_docstring_for_func h ind ns a res err ov era ert ft = Inr []"
    by (auto simp: generate_docstring_for_func_def)
next
  assume ok: "generate_docstring_for_func h ind ns a res err ov era ert ft = Inr out"
  from docstring_fields [OF ok] obtain flds where
    flds: "(if is_void_type a then Inr [] else dt_fields a) = Inr flds" ..
  have skip_eq: "(is_void_type a \<or> dt_fields a = Inr []) \<longleftrightarrow> flds = []"
    using flds by (auto split: if_splits)
  have shape: "\<exists>mid. out = Line ind triple_quote # mid @ [Line ind triple_quote] \<and>
                 list_all (\<lambda>e. e \<noteq> Line ind triple_quote) mid"
    if "flds \<noteq> [] \<or> truthy ov"
    using docstring_shape [OF ok flds that, of "\<lambda>e. e \<noteq> Line ind triple_quote"] by simp
  show "out = [] \<longleftrightarrow> (is_void_type a \<or> dt_fields a = Inr []) \<and> \<not> truthy ov"
  proof (cases "flds = [] \<and> \<not> truthy ov")
    case True
    from docstring_skipped [OF flds True] ok have "out = []" by simp
    then show ?thesis using True skip_eq by simp
  next
    case False
    then have "flds \<noteq> [] \<or> truthy ov" by blast
    from shape [OF this] have "out \<noteq> []" by auto
    then show ?thesis using False skip_eq by simp
  qed
  {
    assume ne: "out \<noteq> []"
    have "flds \<noteq> [] \<or> truthy ov"
    proof (rule ccontr)
      assume "\<not> (flds \<noteq> [] \<or> truthy ov)"
      then have "flds = [] \<and> \<not> truthy ov" by blast
      from docstring_skipped [OF flds this] ok ne show False by simp
    qed
    from shape [OF this] obtain mid where
      out: "out = Line ind triple_quote # mid @ [Line ind triple_quote]" and
      mid: "list_all (\<lambda>e. e \<noteq> Line ind triple_quote) mid" by blast
    have "count_list mid (Line ind triple_quote) = 0"
      using mid by (auto simp: count_list_0_iff list_all_iff)
    then show "hd out = Line ind triple_quote"
      and "last out = Line ind triple_quote"
      and "count_list out (Line ind triple_quote) = 2"
      using out by simp_all
  }
qed


theorem docstring_omitted_iff_witness:
  "(is_void_type Void \<or> dt_fields Void = Inr []) \<and> \<not> truthy None \<and>
   generate_docstring_for_func sample_helpers 2 files_ns Void (Primitive ''Metadata'') Void
     None None None None = Inr [] \<and>
   generate_docstring_for_func sample_helpers 2 files_ns (Struct get_metadata_arg)
     (Primitive ''Metadata'') Void None None None None =
     Inr [Line 2 triple_quote,
          WrappedText 2 '':type path: String'' [],
          WrappedText 2 '':type include_media_info: Nullable'' [],
          Line 2 '':rtype: Metadata'',
          Line 2 triple_quote] \<and>
   count_list [Line 2 triple_quote,
          WrappedText 2 '':type path: String'' [],
          WrappedText 2 '':type include_media_info: Nullable'' [],
          Line 2 '':rtype: Metadata'',
          Line 2 triple_quote] (Line 2 triple_quote) = 2"
proof -
  have skip: "(is_void_type Void \<or> dt_fields Void = Inr []) \<and> \<not> truthy None"
    by (simp add: is_void_type_def truthy_def)
  have run: "generate_docstring_for_func sample_helpers 2 files_ns (Struct get_metadata_arg)
     (Primitive ''Metadata'') Void None None None None =
     Inr [Line 2 triple_quote,
          WrappedText 2 '':type path: String'' [],
          WrappedText 2 '':type include_media_info: Nullable'' [],
          Line 2 '':rtype: Metadata'',
          Line 2 triple_quote]"
    by (simp add: generate_docstring_for_func_def docstring_args_def docstring_raises_def
        docstring_rtype_def docstring_field_def format_type_in_doc_def dt_fields_def
        get_metadata_arg_def sample_helpers_def is_void_type_def is_user_defined_type_def
        truthy_def truthy_list_def)
  show ?thesis
    using skip run
      docstring_omitted_iff [of Void None sample_helpers 2 files_ns "Primitive ''Metadata''" Void
        None None None "[]"]
      docstring_omitted_iff [of "Struct get_metadata_arg" None sample_helpers 2 files_ns
        "Primitive ''Metadata''" Void None None None
        "[Line 2 triple_quote,
          WrappedText 2 '':type path: String'' [],
          WrappedText 2 '':type include_media_info: Nullable'' [],
          Line 2 '':rtype: Metadata'',
          Line 2 triple_quote]"]
    by simp
qed

subsection \<open>Request argument\<close>

text \<open>
  C2. The statement that instantiates the request argument is \<open>arg = None\<close> for a void
  argument, a literal of the argument's class built from the names of \<open>all_fields\<close> in
  their order for a struct, and nothing for a union, whose parameter \<open>arg\<close> is passed on.
  In the method it stands after the declaration, the docstring and the deprecation
  warning, directly before the request call.
\<close>

theorem request_argument_materialized:
  "route_helper_arg h ind Void = Inr [Line ind ''arg = None''] \<and>
   route_helper_arg h ind (Struct u) =
     Inr [MultilineList ind (map field_name (udt_all_fields u))
            (''arg = '' @ udt_namespace u @ ''.'' @ fmt_class h (udt_name u))
            [] (''('', '')'') True] \<and>
   route_helper_arg h ind (Union u) = Inr [] \<and>
   (generate_route_helper h ind ns r dtf = Inr out \<longrightarrow>
      (\<exists>params ov doc.
         arg_params h (arg_data_type r) = Inr params \<and>
         (is_union_type (arg_data_type r) \<longrightarrow> params = [''arg'']) \<and>
         process_doc h (docf h) (route_doc r) = Inr ov \<and>
         route_docstring h ind ns r dtf ov = Inr doc \<and>
         out =
           [MultilineList ind
              (decl_prefix (if dtf then Some [''download_path''] else None) (is_upload r) @ params)
              (decl_name h ns r (if dtf then Some ''_to_file'' else None))
              '':'' (''('', '')'') True] @
           doc @
           maybe_generate_deprecation_warning (ind + 1) r @
           (case arg_data_type r of
              Void \<Rightarrow> [Line (ind + 1) ''arg = None'']
            | Struct u \<Rightarrow>
                [MultilineList (ind + 1) (map field_name (udt_all_fields u))
                   (''arg = '' @ udt_namespace u @ ''.'' @ fmt_class h (udt_name u))
                   [] (''('', '')'') True]
            | _ \<Rightarrow> []) @
           [MultilineList (ind + 1)
              [ns_name ns @ ''.'' @ fmt_var h (route_name r),
               sq @ ns_name ns @ sq,
               ''arg'',
               if is_upload r then ''f'' else ''None'']
              ''r = self.request'' [] (''('', '')'') False] @
           route_helper_return (ind + 1) (result_data_type r) dtf @
           [Line ind []]))"
proof (intro conjI impI)
  assume ok: "generate_route_helper h ind ns r dtf = Inr out"
  then obtain decl ov doc mat where
    decl: "generate_route_method_decl h ind ns r (arg_data_type r) (is_upload r)
        (if dtf then Some ''_to_file'' else None)
        (if dtf then Some [''download_path''] else None) = Inr decl" and
    ov: "process_doc h (docf h) (route_doc r) = Inr ov" and
    doc: "route_docstring h ind ns r dtf ov = Inr doc" and
    mat: "route_helper_arg h (ind + 1) (arg_data_type r) = Inr mat" and
    out: "out = decl @ doc @ maybe_generate_deprecation_warning (ind + 1) r @ mat @
            [route_helper_request h (ind + 1) ns r (is_upload r)] @
            route_helper_return (ind + 1) (result_data_type r) dtf @ [Line ind []]"
    unfolding helper_iff by blast
  from decl obtain params where
    params: "arg_params h (arg_data_type r) = Inr params" and
    d: "decl = [MultilineList ind
                   (decl_prefix (if dtf then Some [''download_path''] else None) (is_upload r) @ params)
                   (decl_name h ns r (if dtf then Some ''_to_file'' else None))
                   '':'' (''('', '')'') True]"
    unfolding decl_iff by blast
  have u: "is_union_type (arg_data_type r) \<longrightarrow> params = [''arg'']"
    using params by (cases "arg_data_type r") (simp_all add: is_union_type_def arg_params_def)
  have m: "mat = (case arg_data_type r of
              Void \<Rightarrow> [Line (ind + 1) ''arg = None'']
            | Struct u \<Rightarrow>
                [MultilineList (ind + 1) (map field_name (udt_all_fields u))
                   (''arg = '' @ udt_namespace u @ ''.'' @ fmt_class h (udt_name u))
                   [] (''('', '')'') True]
            | _ \<Rightarrow> [])"
    using mat by (cases "arg_data_type r") (simp_all add: route_helper_arg_def)
  show "\<exists>params ov doc.
         arg_params h (arg_data_type r) = Inr params \<and>
         (is_union_type (arg_data_type r) \<longrightarrow> params = [''arg'']) \<and>
         process_doc h (docf h) (route_doc r) = Inr ov \<and>
         route_docstring h ind ns r dtf ov = Inr doc \<and>
         out =
           [MultilineList ind
              (decl_prefix (if dtf then Some [''download_path''] else None) (is_upload r) @ params)
              (decl_name h ns r (if dtf then Some ''_to_file'' else None))
              '':'' (''('', '')'') True] @
           doc @
           maybe_generate_deprecation_warning (ind + 1) r @
           (case arg_data_type r of
              Void \<Rightarrow> [Line (ind + 1) ''arg = None'']
            | Struct u \<Rightarrow>
                [MultilineList (ind + 1) (map field_name (udt_all_fields u))
                   (''arg = '' @ udt_namespace u @ ''.'' @ fmt_class h (udt_name u))
                   [] (''('', '')'') True]
            | _ \<Rightarrow> []) @
           [MultilineList (ind + 1)
              [ns_name ns @ ''.'' @ fmt_var h (route_name r),
               sq @ ns_name ns @ sq,
               ''arg'',
               if is_upload r then ''f'' else ''None'']
              ''r = self.request'' [] (''('', '')'') False] @
           route_helper_return (ind + 1) (result_data_type r) dtf @
           [Line ind []]"
    using params u ov doc out d m
    unfolding route_helper_request_def
    by (intro exI [of _ params] exI [of _ ov] exI [of _ doc]) simp
qed (simp_all add: route_helper_arg_def)

theorem request_argument_materialized_witness:
  "generate_route_helper sample_helpers 1 files_ns get_metadata False =
     Inr [MultilineList 1 [''self'', ''path'', ''include_media_info=None'']
            ''def files_get_metadata'' '':'' (''('', '')'') True,
          Line 2 triple_quote,
          WrappedText 2 '':type path: String'' [],
          WrappedText 2 '':type include_media_info: Nullable'' [],
          Line 2 '':rtype: Metadata'',
          Line 2 triple_quote,
          MultilineList 2 [''path'', ''include_media_info'']
            ''arg = files.GetMetadataArg'' [] (''('', '')'') True,
          MultilineList 2 [''files.get_metadata'', sq @ ''files'' @ sq, ''arg'', ''None'']
            ''r = self.request'' [] (''('', '')'') False,
          Line 2 ''return r'',
          Line 1 []]"
proof -
  have run: "generate_route_helper sample_helpers 1 files_ns get_metadata False =
     Inr [MultilineList 1 [''self'', ''path'', ''include_media_info=None'']
            ''def files_get_metadata'' '':'' (''('', '')'') True,
          Line 2 triple_quote,
          WrappedText 2 '':type path: String'' [],
          WrappedText 2 '':type include_media_info: Nullable'' [],
          Line 2 '':rtype: Metadata'',
          Line 2 triple_quote,
          MultilineList 2 [''path'', ''include_media_info'']
            ''arg = files.GetMetadataArg'' [] (''('', '')'') True,
          MultilineList 2 [''files.get_metadata'', sq @ ''files'' @ sq, ''arg'', ''None'']
            ''r = self.request'' [] (''('', '')'') False,
          Line 2 ''return r'',
          Line 1 []]"
    by (simp add: generate_route_helper_def generate_route_method_decl_def
        route_method_decl_field_def route_helper_arg_def route_helper_request_def
        route_helper_return_def maybe_generate_deprecation_warning_def
        generate_docstring_for_func_def docstring_args_def docstring_raises_def
        docstring_rtype_def docstring_field_def format_type_in_doc_def dt_fields_def
        get_metadata_def get_metadata_arg_def files_ns_def sample_helpers_def
        is_void_type_def is_user_defined_type_def is_nullable_type_def
        truthy_def truthy_list_def)
  show ?thesis
    using run request_argument_materialized [of sample_helpers 1 get_metadata_arg files_ns
        get_metadata False
        "[MultilineList 1 [''self'', ''path'', ''include_media_info=None'']
            ''def files_get_metadata'' '':'' (''('', '')'') True,
          Line 2 triple_quote,
          WrappedText 2 '':type path: String'' [],
          WrappedText 2 '':type include_media_info: Nullable'' [],
          Line 2 '':rtype: Metadata'',
          Line 2 triple_quote,
          MultilineList 2 [''path'', ''include_media_info'']
            ''arg = files.GetMetadataArg'' [] (''('', '')'') True,
          MultilineList 2 [''files.get_metadata'', sq @ ''files'' @ sq, ''arg'', ''None'']
            ''r = self.request'' [] (''('', '')'') False,
          Line 2 ''return r'',
          Line 1 []]"]
    by simp
qed

subsection \<open>The worked examples, evaluated\<close>

lemma close_response_nonempty: "DOCSTRING_CLOSE_RESPONSE \<noteq> []"
  by (simp add: DOCSTRING_CLOSE_RESPONSE_def)

lemmas run_defs =
  generate_route_def generate_route_helper_def generate_route_method_decl_def
  route_method_decl_field_def route_helper_arg_def route_helper_request_def
  route_helper_return_def maybe_generate_deprecation_warning_def
  generate_docstring_for_func_def docstring_args_def docstring_raises_def
  docstring_rtype_def docstring_field_def docstring_extra_arg_def
  format_type_in_doc_def dt_fields_def
  files_ns_def sample_helpers_def get_metadata_arg_def
  is_void_type_def is_user_defined_type_def is_nullable_type_def
  truthy_def truthy_list_def py_str_def close_response_nonempty


lemma run_download_to_file:
  "generate_route_helper sample_helpers 1 files_ns download_route True = Inr download_file_method"
  by (simp add: run_defs download_route_def download_file_method_def)


lemma run_upload:
  "generate_route sample_helpers 1 files_ns upload_route = Inr upload_method"
  by (simp add: run_defs upload_route_def upload_method_def)


lemma run_old_helper:
  "generate_route_helper sample_helpers 1 files_ns old_route False = Inr old_method"
  by (simp add: run_defs old_route_def old_method_def)

subsection \<open>Variants of a route\<close>

lemma helper_parts:
  assumes ok: "generate_route_helper h ind ns r dtf = Inr out"
  shows "\<exists>params ov doc mat.
           arg_params h (arg_data_type r) = Inr params \<and>
           process_doc h (docf h) (route_doc r) = Inr ov \<and>
           route_docstring h ind ns r dtf ov = Inr doc \<and>
           route_helper_arg h (ind + 1) (arg_data_type r) = Inr mat \<and>
           out = MultilineList ind
                   (decl_prefix (if dtf then Some [''download_path''] else None) (is_upload r) @ params)
                   (decl_name h ns r (if dtf then Some ''_to_file'' else None))
                   '':'' (''('', '')'') True #
                 doc @ maybe_generate_deprecation_warning (ind + 1) r @ mat @
                 [route_helper_request h (ind + 1) ns r (is_upload r)] @
                 route_helper_return (ind + 1) (result_data_type r) dtf @ [Line ind []]"
proof -
  from ok obtain decl ov doc mat where
    decl: "generate_route_method_decl h ind ns r (arg_data_type r) (is_upload r)
        (if dtf then Some ''_to_file'' else None)
        (if dtf then Some [''download_path''] else None) = Inr decl" and
    rest: "process_doc h (docf h) (route_doc r) = Inr ov"
      "route_docstring h ind ns r dtf ov = Inr doc"
      "route_helper_arg h (ind + 1) (arg_data_type r) = Inr mat" and
    out: "out = decl @ doc @ maybe_generate_deprecation_warning (ind + 1) r @ mat @
            [route_helper_request h (ind + 1) ns r (is_upload r)] @
            route_helper_return (ind + 1) (result_data_type r) dtf @ [Line ind []]"
    unfolding helper_iff by blast
  from decl obtain params where
    "arg_params h (arg_data_type r) = Inr params" and
    "decl = [MultilineList ind
                   (decl_prefix (if dtf then Some [''download_path''] else None) (is_upload r) @ params)
                   (decl_name h ns r (if dtf then Some ''_to_file'' else None))
                   '':'' (''('', '')'') True]"
    unfolding decl_iff by blast
  with rest out show ?thesis by simp
qed


lemma generate_route_iff:
  "generate_route h ind ns r = Inr out \<longleftrightarrow>
   (if is_download r then
      (\<exists>plain to_file. generate_route_helper h ind ns r False = Inr plain \<and>
         generate_route_helper h ind ns r True = Inr to_file \<and> out = plain @ to_file)
    else generate_route_helper h ind ns r False = Inr out)"
  by (auto simp: generate_route_def bind_eq_Inr is_download_def)








subsection \<open>Binary body of an upload\<close>

lemma route_docstring_no_request:
  assumes "route_docstring h ind ns r dtf ov = Inr doc"
  shows "filter is_request_call doc = []"
proof -
  have "list_all (\<lambda>e. \<not> is_request_call e) doc"
    using assms unfolding route_docstring_def
    by (rule docstring_all) (simp_all add: is_request_call_def)
  then show ?thesis
    by (simp add: list_all_iff filter_empty_conv)
qed

lemma deprecation_no_request:
  "filter is_request_call (maybe_generate_deprecation_warning n r) = []"
  by (simp add: maybe_generate_deprecation_warning_def Let_def is_request_call_def
      split: option.splits)

lemma arg_no_request:
  "route_helper_arg h n t = Inr mat \<Longrightarrow> filter is_request_call mat = []"
  by (cases t) (auto simp: route_helper_arg_def is_request_call_def)

lemma return_no_request:
  "filter is_request_call (route_helper_return n t dtf) = []"
  by (simp add: route_helper_return_def is_request_call_def)

lemma helper_one_request:
  assumes "generate_route_helper h ind ns r dtf = Inr out"
  shows "filter is_request_call out = [route_helper_request h (ind + 1) ns r (is_upload r)]"
proof -
  from helper_parts [OF assms] obtain params ov doc mat where
    doc: "route_docstring h ind ns r dtf ov = Inr doc" and
    mat: "route_helper_arg h (ind + 1) (arg_data_type r) = Inr mat" and
    out: "out = MultilineList ind
                   (decl_prefix (if dtf then Some [''download_path''] else None) (is_upload r) @ params)
                   (decl_name h ns r (if dtf then Some ''_to_file'' else None))
                   '':'' (''('', '')'') True #
                 doc @ maybe_generate_deprecation_warning (ind + 1) r @ mat @
                 [route_helper_request h (ind + 1) ns r (is_upload r)] @
                 route_helper_return (ind + 1) (result_data_type r) dtf @ [Line ind []]"
    by blast
  have d: "\<not> is_request_call (MultilineList ind
                   (decl_prefix (if dtf then Some [''download_path''] else None) (is_upload r) @ params)
                   (decl_name h ns r (if dtf then Some ''_to_file'' else None))
                   '':'' (''('', '')'') True)"
    by (simp add: is_request_call_def decl_name_def)
  have q: "is_request_call (route_helper_request h (ind + 1) ns r (is_upload r))"
    by (simp add: is_request_call_def route_helper_request_def)
  have b: "\<not> is_request_call (Line ind [])"
    by (simp add: is_request_call_def)
  show ?thesis
    unfolding out
    using d q b route_docstring_no_request [OF doc] arg_no_request [OF mat]
    by (simp add: deprecation_no_request return_no_request)
qed

lemma upload_not_download: "is_upload r \<Longrightarrow> \<not> is_download r"
  by (simp add: is_download_def is_upload_def)

text \<open>
  C4, as the claim states it, fails: for the upload route of the examples the parameter
  \<open>f\<close> stands directly after the receiver, before the parameters of the struct fields,
  and is not the last one.
\<close>

theorem upload_binary_body_counterexample:
  "generate_route_method_decl sample_helpers 1 files_ns upload_route
     (arg_data_type upload_route) True None None =
     Inr [MultilineList 1 [''self'', ''f'', ''path'', ''include_media_info=None'']
            ''def files_upload'' '':'' (''('', '')'') True] \<and>
   last [''self'', ''f'', ''path'', ''include_media_info=None''] \<noteq> ''f''"
  by (simp add: run_defs upload_route_def)

text \<open>
  C4, amended. A route of style \<open>upload\<close> yields exactly one method; its parameters are
  the receiver, then \<open>f\<close>, then the parameters derived from the argument type; its one
  request call passes \<open>f\<close> as fourth argument. For a route of any other style the one
  request call of each variant passes \<open>None\<close> there.
\<close>

theorem upload_binary_body:
  "(is_upload r \<and> generate_route h ind ns r = Inr out \<longrightarrow>
      generate_route_helper h ind ns r False = Inr out \<and>
      length (filter is_method_decl out) = 1 \<and>
      (\<exists>params body.
         arg_params h (arg_data_type r) = Inr params \<and>
         out = MultilineList ind (''self'' # ''f'' # params)
                 (''def '' @ fmt_func h (ns_name ns) @ ''_'' @ fmt_func h (route_name r))
                 '':'' (''('', '')'') True # body) \<and>
      filter is_request_call out =
        [MultilineList (ind + 1)
           [ns_name ns @ ''.'' @ fmt_var h (route_name r), sq @ ns_name ns @ sq, ''arg'', ''f'']
           ''r = self.request'' [] (''('', '')'') False]) \<and>
   (\<not> is_upload r \<and> generate_route_helper h ind ns r dtf = Inr out \<longrightarrow>
      filter is_request_call out =
        [MultilineList (ind + 1)
           [ns_name ns @ ''.'' @ fmt_var h (route_name r), sq @ ns_name ns @ sq, ''arg'', ''None'']
           ''r = self.request'' [] (''('', '')'') False])"
proof (intro conjI impI)
  assume a: "is_upload r \<and> generate_route h ind ns r = Inr out"
  then show p: "generate_route_helper h ind ns r False = Inr out"
    using upload_not_download [of r] by (simp add: generate_route_iff)
  show "length (filter is_method_decl out) = 1"
    using helper_one_decl [OF p] .
  from helper_parts [OF p] a
  show "\<exists>params body.
         arg_params h (arg_data_type r) = Inr params \<and>
         out = MultilineList ind (''self'' # ''f'' # params)
                 (''def '' @ fmt_func h (ns_name ns) @ ''_'' @ fmt_func h (route_name r))
                 '':'' (''('', '')'') True # body"
    by (auto simp: decl_prefix_def decl_name_def)
  show "filter is_request_call out =
        [MultilineList (ind + 1)
           [ns_name ns @ ''.'' @ fmt_var h (route_name r), sq @ ns_name ns @ sq, ''arg'', ''f'']
           ''r = self.request'' [] (''('', '')'') False]"
    using helper_one_request [OF p] a by (simp add: route_helper_request_def)
next
  assume a: "\<not> is_upload r \<and> generate_route_helper h ind ns r dtf = Inr out"
  then have p: "generate_route_helper h ind ns r dtf = Inr out" by simp
  show "filter is_request_call out =
        [MultilineList (ind + 1)
           [ns_name ns @ ''.'' @ fmt_var h (route_name r), sq @ ns_name ns @ sq, ''arg'', ''None'']
           ''r = self.request'' [] (''('', '')'') False]"
    using helper_one_request [OF p] a by (simp add: route_helper_request_def)
qed

theorem upload_binary_body_witness:
  "is_upload upload_route \<and>
   generate_route sample_helpers 1 files_ns upload_route = Inr upload_method \<and>
   length (filter is_method_decl upload_method) = 1 \<and>
   filter is_request_call upload_method =
     [MultilineList 2 [''files.upload'', sq @ ''files'' @ sq, ''arg'', ''f'']
        ''r = self.request'' [] (''('', '')'') False] \<and>
   \<not> is_upload download_route \<and>
   generate_route_helper sample_helpers 1 files_ns download_route True = Inr download_file_method \<and>
   filter is_request_call download_file_method =
     [MultilineList 2 [''files.download'', sq @ ''files'' @ sq, ''arg'', ''None'']
        ''r = self.request'' [] (''('', '')'') False]"
proof -
  have u: "is_upload upload_route" and d: "\<not> is_upload download_route"
    by (simp_all add: is_upload_def upload_route_def download_route_def)
  from upload_binary_body [of upload_route sample_helpers 1 files_ns upload_method] u run_upload
  have 1: "length (filter is_method_decl upload_method) = 1"
    and 2: "filter is_request_call upload_method =
     [MultilineList 2 [''files.upload'', sq @ ''files'' @ sq, ''arg'', ''f'']
        ''r = self.request'' [] (''('', '')'') False]"
    by (simp_all add: files_ns_def sample_helpers_def upload_route_def)
  from upload_binary_body [of download_route sample_helpers 1 files_ns download_file_method True]
    d run_download_to_file
  have 3: "filter is_request_call download_file_method =
     [MultilineList 2 [''files.download'', sq @ ''files'' @ sq, ''arg'', ''None'']
        ''r = self.request'' [] (''('', '')'') False]"
    by (simp add: files_ns_def sample_helpers_def download_route_def)
  from u d run_upload run_download_to_file 1 2 3 show ?thesis by blast
qed

subsection \<open>Deprecation\<close>

lemma route_indent:
  assumes "generate_route h ind ns r = Inr out"
  shows "list_all (\<lambda>e. ind \<le> indent_of e) out"
proof (cases "is_download r")
  case True
  with assms obtain plain to_file where
    "generate_route_helper h ind ns r False = Inr plain"
    "generate_route_helper h ind ns r True = Inr to_file"
    "out = plain @ to_file"
    by (auto simp: generate_route_iff)
  then show ?thesis
    using helper_indent [of h ind ns r False plain] helper_indent [of h ind ns r True to_file]
    by simp
next
  case False
  with assms have "generate_route_helper h ind ns r False = Inr out"
    by (simp add: generate_route_iff)
  then show ?thesis by (rule helper_indent)
qed

lemma route_methods_ns_indent:
  assumes "generate_route_methods_ns h ind ns = Inr out"
  shows "list_all (\<lambda>e. ind \<le> indent_of e) out"
proof (cases "ns_routes ns = []")
  case True
  with assms show ?thesis by (simp add: generate_route_methods_ns_def)
next
  case False
  with assms obtain ms where
    ms: "concat_result (generate_route h ind ns) (ns_routes ns) = Inr ms" and
    out: "out = [Line ind ''# ------------------------------------------'',
                Line ind (''# Routes in '' @ ns_name ns @ '' namespace''),
                Line ind []] @ ms"
    by (auto simp: generate_route_methods_ns_def bind_eq_Inr)
  have "list_all (\<lambda>e. ind \<le> indent_of e) ms"
    using ms by (rule concat_result_all) (rule route_indent)
  then show ?thesis
    using out by (simp add: indent_of_def)
qed

lemma route_methods_indent:
  assumes "generate_route_methods h ind nss = Inr out"
  shows "list_all (\<lambda>e. ind \<le> indent_of e) out"
  using assms unfolding generate_route_methods_def
  by (rule concat_result_all) (rule route_methods_ns_indent)

lemma imports_no_warnings:
  "count_list (generate_imports 0 nss) (Line 0 ''import warnings'') = 0"
  by (auto simp: generate_imports_def count_list_0_iff)

lemma found_deprecated_iff:
  "found_deprecated nss \<longleftrightarrow>
   (\<exists>ns \<in> set nss. \<exists>r \<in> set (ns_routes ns). deprecated r \<noteq> None)"
  by (simp add: found_deprecated_def list_ex_iff)

lemma count_list_append_sum:
  "count_list (xs @ ys) x = count_list xs x + count_list ys x"
  by (induction xs) simp_all

text \<open>
  C5. The module holds the statement \<open>import warnings\<close> at module level exactly once
  when some route of some namespace is deprecated, and not at all otherwise. In the
  method of a deprecated route the warning call follows the declaration and the
  docstring and precedes the argument statement; its message is the route name followed
  by \<open>is deprecated.\<close> and, when a replacement is named, by \<open>Use\<close> and its name.
\<close>

theorem deprecation_import_and_warning:
  "(generate h a nss = Inr (path, out) \<longrightarrow>
      count_list out (Line 0 ''import warnings'') =
        (if \<exists>ns \<in> set nss. \<exists>r \<in> set (ns_routes ns). deprecated r \<noteq> None then 1 else 0)) \<and>
   (deprecated r = Some d \<and> generate_route_helper h ind ns r dtf = Inr body \<longrightarrow>
      (\<exists>params ov doc mat.
         arg_params h (arg_data_type r) = Inr params \<and>
         route_docstring h ind ns r dtf ov = Inr doc \<and>
         route_helper_arg h (ind + 1) (arg_data_type r) = Inr mat \<and>
         body =
           MultilineList ind
             (decl_prefix (if dtf then Some [''download_path''] else None) (is_upload r) @ params)
             (decl_name h ns r (if dtf then Some ''_to_file'' else None))
             '':'' (''('', '')'') True #
           doc @
           [MultilineList (ind + 1)
              [sq @ route_name r @ '' is deprecated.'' @
                 (case deprecated_by d of None \<Rightarrow> [] | Some n \<Rightarrow> '' Use '' @ n @ ''.'') @ sq,
               ''DeprecationWarning'']
              ''warnings.warn'' [] (''('', '')'') False] @
           mat @
           [route_helper_request h (ind + 1) ns r (is_upload r)] @
           route_helper_return (ind + 1) (result_data_type r) dtf @ [Line ind []]))"
proof (intro conjI impI)
  assume ok: "generate h a nss = Inr (path, out)"
  then obtain methods where
    ms: "generate_route_methods h 1 nss = Inr methods" and
    out: "out = [Raw base] @
            (if found_deprecated nss then [Line 0 ''import warnings''] else []) @
            [Line 0 []] @
            generate_imports 0 nss @
            [Line 0 [], Line 0 [],
             Line 0 (''class '' @ args_class_name a @ ''(object):''),
             Line 1 ''__metaclass__ = ABCMeta'',
             Line 1 [],
             Line 1 ''@abstractmethod'',
             Line 1 ''def request(self, route, namespace, arg, arg_binary=None):'',
             Line 2 ''pass'',
             Line 1 []] @
            methods"
    by (auto simp: generate_def bind_eq_Inr)
  have "Line 0 ''import warnings'' \<notin> set methods"
    using route_methods_indent [OF ms] by (auto simp: list_all_iff indent_of_def)
  then have m: "count_list methods (Line 0 ''import warnings'') = 0"
    by (simp add: count_list_0_iff)
  show "count_list out (Line 0 ''import warnings'') =
        (if \<exists>ns \<in> set nss. \<exists>r \<in> set (ns_routes ns). deprecated r \<noteq> None then 1 else 0)"
    unfolding out found_deprecated_iff [symmetric]
    using m by (simp add: count_list_append_sum imports_no_warnings)
next
  assume a: "deprecated r = Some d \<and> generate_route_helper h ind ns r dtf = Inr body"
  then have dep: "maybe_generate_deprecation_warning (ind + 1) r =
           [MultilineList (ind + 1)
              [sq @ route_name r @ '' is deprecated.'' @
                 (case deprecated_by d of None \<Rightarrow> [] | Some n \<Rightarrow> '' Use '' @ n @ ''.'') @ sq,
               ''DeprecationWarning'']
              ''warnings.warn'' [] (''('', '')'') False]"
    by (simp add: maybe_generate_deprecation_warning_def Let_def split: option.splits)
  from a have "generate_route_helper h ind ns r dtf = Inr body" by simp
  from helper_parts [OF this]
  show "\<exists>params ov doc mat.
         arg_params h (arg_data_type r) = Inr params \<and>
         route_docstring h ind ns r dtf ov = Inr doc \<and>
         route_helper_arg h (ind + 1) (arg_data_type r) = Inr mat \<and>
         body =
           MultilineList ind
             (decl_prefix (if dtf then Some [''download_path''] else None) (is_upload r) @ params)
             (decl_name h ns r (if dtf then Some ''_to_file'' else None))
             '':'' (''('', '')'') True #
           doc @
           [MultilineList (ind + 1)
              [sq @ route_name r @ '' is deprecated.'' @
                 (case deprecated_by d of None \<Rightarrow> [] | Some n \<Rightarrow> '' Use '' @ n @ ''.'') @ sq,
               ''DeprecationWarning'']
              ''warnings.warn'' [] (''('', '')'') False] @
           mat @
           [route_helper_request h (ind + 1) ns r (is_upload r)] @
           route_helper_return (ind + 1) (result_data_type r) dtf @ [Line ind []]"
    unfolding dep by blast
qed

lemma run_old_module:
  "generate sample_helpers \<lparr>args_module_name = ''base'', args_class_name = ''DropboxBase''\<rparr>
     old_api = Inr (''base.py'', old_module)"
proof -
  have "generate_route sample_helpers 1
          \<lparr>ns_name = ''files'', ns_data_types = [], ns_routes = [old_route]\<rparr> old_route =
        Inr old_method"
    by (simp add: run_defs old_route_def old_method_def)
  then show ?thesis
    by (simp add: generate_def generate_route_methods_def generate_route_methods_ns_def
        generate_imports_def found_deprecated_def old_api_def old_module_def old_route_def)
qed

theorem deprecation_import_and_warning_witness:
  "generate sample_helpers \<lparr>args_module_name = ''base'', args_class_name = ''DropboxBase''\<rparr>
     old_api = Inr (''base.py'', old_module) \<and>
   (\<exists>ns \<in> set old_api. \<exists>r \<in> set (ns_routes ns). deprecated r \<noteq> None) \<and>
   count_list old_module (Line 0 ''import warnings'') = 1 \<and>
   deprecated old_route = Some (DeprecationInfo (Some ''get_metadata'')) \<and>
   generate_route_helper sample_helpers 1 files_ns old_route False = Inr old_method \<and>
   old_method ! 1 =
     MultilineList 2
       [sq @ ''get_metadata_v1 is deprecated. Use get_metadata.'' @ sq, ''DeprecationWarning'']
       ''warnings.warn'' [] (''('', '')'') False"
proof -
  have e: "\<exists>ns \<in> set old_api. \<exists>r \<in> set (ns_routes ns). deprecated r \<noteq> None"
    by (simp add: old_api_def old_route_def)
  have d: "deprecated old_route = Some (DeprecationInfo (Some ''get_metadata''))"
    by (simp add: old_route_def)
  from deprecation_import_and_warning [of sample_helpers
      "\<lparr>args_module_name = ''base'', args_class_name = ''DropboxBase''\<rparr>" old_api
      "''base.py''" old_module old_route "DeprecationInfo (Some ''get_metadata'')"
      1 files_ns False old_method] run_old_module e
  have c: "count_list old_module (Line 0 ''import warnings'') = 1"
    by simp
  have n: "old_method ! 1 =
     MultilineList 2
       [sq @ ''get_metadata_v1 is deprecated. Use get_metadata.'' @ sq, ''DeprecationWarning'']
       ''warnings.warn'' [] (''('', '')'') False"
    by (simp add: old_method_def)
  from run_old_module e c d run_old_helper n show ?thesis by blast
qed

end
